theory Spec2Isabelle
  imports Complex_Main "HOL-Library.Sublist"
begin

section \<open>The Python library, as far as the sources use it\<close>

text \<open>
  A Python float is read as the real number it denotes, so a comparison of floats is the
  comparison of reals. The operations on floats round their results. Two readings of
  them are used:
  \<^item> where a property is about the values that the arithmetic produces (the classifier
    against its reference definition, the distances), the arithmetic is a parameter of
    the functions, a \<open>float_arith\<close>, with exact arithmetic and the arithmetic of IEEE 754
    doubles as two instances;
  \<^item> elsewhere (the random draws, the texts printed and logged) the operations are
    the exact ones, an idealisation: the value of a draw, the last digit of a formatted
    number and a comparison at the very threshold can differ from the program's.
  Python strings are byte strings in UTF-8 (\<open>string\<close>), so an emoji of a message is
  written as its bytes.
\<close>

subsection \<open>Exceptions\<close>

text \<open>
  The exceptions that the modelled functions can raise, as values: a function that can
  raise returns \<open>py_error + 'a\<close>, with \<open>Inl\<close> for the exception. \<open>KeyError\<close> carries the
  missing key.
\<close>

datatype py_error = ValueError | KeyError string

subsection \<open>Strings and number formatting\<close>

definition digit_char :: "nat \<Rightarrow> char" where
  "digit_char d = ''0123456789'' ! d"

fun str_nat :: "nat \<Rightarrow> string" where
  "str_nat n = (if n < 10 then [digit_char n] else str_nat (n div 10) @ [digit_char (n mod 10)])"

declare str_nat.simps [simp del]

definition round_half_even :: "real \<Rightarrow> int" where
  "round_half_even y =
     (let f = \<lfloor>y\<rfloor>; d = y - of_int f
      in if d < 1 / 2 then f
         else if d > 1 / 2 then f + 1
         else if even f then f else f + 1)"

definition zero_pad :: "nat \<Rightarrow> string \<Rightarrow> string" where
  "zero_pad k ds = replicate (k - length ds) CHR ''0'' @ ds"

text \<open>
  \<open>format(x, '.kf')\<close>: the decimal with \<open>k\<close> fractional digits nearest to \<open>x\<close>, a
  minus sign for a negative \<open>x\<close>, a tie going to the even digit. Here \<open>x\<close> is the real
  number as written; Python formats the double nearest to it, so the two differ where
  the written number is a tie and the double is not (0.325 is printed as 0.33).
\<close>

definition py_format_fixed :: "nat \<Rightarrow> real \<Rightarrow> string" where
  "py_format_fixed k x =
     (let n = nat (round_half_even (\<bar>x\<bar> * 10 ^ k))
      in (if x < 0 then ''-'' else []) @ str_nat (n div 10 ^ k) @
         (if k = 0 then [] else ''.'' @ zero_pad k (str_nat (n mod 10 ^ k))))"

text \<open>
  \<open>str.upper\<close> on ASCII: the sources apply it to the configuration names and the
  severities only.
\<close>

definition upper_char :: "char \<Rightarrow> char" where
  "upper_char c =
     (case map_of (zip ''abcdefghijklmnopqrstuvwxyz'' ''ABCDEFGHIJKLMNOPQRSTUVWXYZ'') c of
        None \<Rightarrow> c
      | Some u \<Rightarrow> u)"

definition py_upper :: "string \<Rightarrow> string" where
  "py_upper s = map upper_char s"

subsection \<open>The environment: random source, clock, standard output, files\<close>

text \<open>
  The module \<open>random\<close>, \<open>datetime.now()\<close>, \<open>print\<close> and the log file are the
  environment of the program. It is a state of its own, passed through every function
  that uses it:
  \<^item> \<open>rand_src\<close> lists the 53-bit integers behind the successive results of
    \<open>random.random()\<close>, each result being that integer over \<open>2^53\<close>, in \<open>[0, 1)\<close>;
  \<^item> \<open>below_src\<close> lists the integers behind the successive index draws of
    \<open>random.choice\<close>;
  \<^item> \<open>clock_src\<close> lists the successive results of \<open>datetime.now().isoformat()\<close>;
  \<^item> \<open>stdout\<close> holds the lines printed so far;
  \<^item> \<open>files\<close> maps a file name to the entries appended to it so far (an entry is
    the dictionary that \<open>json.dumps\<close> writes on one line).
\<close>

record 'l world =
  rand_src :: "nat \<Rightarrow> nat"
  rand_pos :: nat
  below_src :: "nat \<Rightarrow> nat"
  below_pos :: nat
  clock_src :: "nat \<Rightarrow> string"
  clock_pos :: nat
  stdout :: "string list"
  files :: "string \<Rightarrow> 'l list"

definition print_line :: "string \<Rightarrow> 'l world \<Rightarrow> 'l world" where
  "print_line s w = w\<lparr>stdout := stdout w @ [s]\<rparr>"

definition py_random :: "'l world \<Rightarrow> real \<times> 'l world" where
  "py_random w =
     (real (rand_src w (rand_pos w) mod 2 ^ 53) / 2 ^ 53, w\<lparr>rand_pos := rand_pos w + 1\<rparr>)"

text \<open>
  \<open>random.uniform(a, b)\<close> is \<open>a + (b - a) * random()\<close>, here in exact arithmetic: the
  program's value is this one rounded, and can reach \<open>b\<close>.
\<close>

definition random_uniform :: "real \<Rightarrow> real \<Rightarrow> 'l world \<Rightarrow> real \<times> 'l world" where
  "random_uniform a b w = (case py_random w of (u, w') \<Rightarrow> (a + (b - a) * u, w'))"

text \<open>
  \<open>random.choice(seq)\<close> on a non-empty sequence: the item at a drawn index below
  \<open>len(seq)\<close>. The sources call it on the non-empty tables that they build themselves;
  on an empty sequence Python raises \<open>IndexError\<close>, which is not modelled.
\<close>

definition random_choice :: "'a list \<Rightarrow> 'l world \<Rightarrow> 'a \<times> 'l world" where
  "random_choice xs w =
     (xs ! (below_src w (below_pos w) mod length xs), w\<lparr>below_pos := below_pos w + 1\<rparr>)"

text \<open>
  \<open>random.choices(population, k=k)\<close>: \<open>k\<close> items, each
  \<open>population[floor(random() * len(population))]\<close>.
\<close>

fun random_choices :: "'a list \<Rightarrow> nat \<Rightarrow> 'l world \<Rightarrow> 'a list \<times> 'l world" where
  "random_choices population 0 w = ([], w)"
| "random_choices population (Suc k) w =
     (case py_random w of (u, w1) \<Rightarrow>
        (case random_choices population k w1 of (rest, w2) \<Rightarrow>
           (population ! nat \<lfloor>u * real (length population)\<rfloor> # rest, w2)))"

definition datetime_now_isoformat :: "'l world \<Rightarrow> string \<times> 'l world" where
  "datetime_now_isoformat w = (clock_src w (clock_pos w), w\<lparr>clock_pos := clock_pos w + 1\<rparr>)"

subsection \<open>Values of dictionaries, and their formatting\<close>

text \<open>
  The values that the location dictionaries hold: strings, floats and integers.
\<close>

datatype py_value = PyStr string | PyFloat real | PyInt int

definition str_int :: "int \<Rightarrow> string" where
  "str_int i = (if i < 0 then ''-'' @ str_nat (nat (- i)) else str_nat (nat i))"

text \<open>
  \<open>str\<close> of a float, in positional notation: the sign, the integer part, a point and the
  fractional digits, at least one. This is Python's result for a float written as a
  decimal literal of at most 15 significant digits and of magnitude in
  \<open>[1e-4, 1e16)\<close>: the shortest decimal that reads back as the float is that literal
  without its trailing zeros. It is not Python's result for a float that a computation
  produced (40.7128 + 0.0005 is printed with 17 digits) nor outside that range (0.00001
  is printed as 1e-05). The digits are produced one at a time, at most 17.
\<close>

fun frac_digits :: "nat \<Rightarrow> real \<Rightarrow> string" where
  "frac_digits 0 f = []"
| "frac_digits (Suc n) f =
     (if f = 0 then []
      else digit_char (nat \<lfloor>f * 10\<rfloor>) # frac_digits n (f * 10 - of_int \<lfloor>f * 10\<rfloor>))"

definition py_float_str :: "real \<Rightarrow> string" where
  "py_float_str x =
     (let digits = frac_digits 17 (\<bar>x\<bar> - of_int \<lfloor>\<bar>x\<bar>\<rfloor>)
      in (if x < 0 then ''-'' else []) @ str_nat (nat \<lfloor>\<bar>x\<bar>\<rfloor>) @ ''.'' @
         (if digits = [] then ''0'' else digits))"

text \<open>
  A replacement field \<open>{v}\<close> of an f-string, and a field \<open>{v:.kf}\<close>, which raises
  \<open>ValueError\<close> for a string.
\<close>

definition format_plain :: "py_value \<Rightarrow> string" where
  "format_plain v =
     (case v of PyStr s \<Rightarrow> s | PyFloat x \<Rightarrow> py_float_str x | PyInt i \<Rightarrow> str_int i)"

definition format_fixed :: "nat \<Rightarrow> py_value \<Rightarrow> py_error + string" where
  "format_fixed k v =
     (case v of
        PyStr s \<Rightarrow> Inl ValueError
      | PyFloat x \<Rightarrow> Inr (py_format_fixed k x)
      | PyInt i \<Rightarrow> Inr (py_format_fixed k (of_int i)))"

text \<open>
  \<open>urllib.parse.quote(s)\<close> with the default \<open>safe='/'\<close>: every byte of the UTF-8
  encoding that is not a letter, a digit or one of \<open>_.-~/\<close> becomes \<open>%XX\<close>.
\<close>

definition hex_digit :: "nat \<Rightarrow> char" where
  "hex_digit d = ''0123456789ABCDEF'' ! d"

definition quote_byte :: "char \<Rightarrow> string" where
  "quote_byte c =
     (if c \<in> set (''ABCDEFGHIJKLMNOPQRSTUVWXYZabcdefghijklmnopqrstuvwxyz0123456789_.-~'' @ ''/'')
      then [c]
      else [CHR ''%'', hex_digit (of_char c div 16), hex_digit (of_char c mod 16)])"

definition urllib_parse_quote :: "string \<Rightarrow> string" where
  "urllib_parse_quote s = concat (map quote_byte s)"

subsection \<open>Float arithmetic\<close>

text \<open>
  What the operations on floats return, as a parameter:
  \<^item> \<open>fl_round x\<close> is the float nearest to the real \<open>x\<close>. A literal denotes the rounding
    of the number written, an integer converts to the rounding of its value, and the
    results of \<open>+\<close>, \<open>-\<close>, \<open>*\<close>, \<open>/\<close> and \<open>math.sqrt\<close> are the roundings of the exact
    results (IEEE 754 rounds them correctly);
  \<^item> \<open>fl_sum xs\<close> is the built-in \<open>sum\<close> of a list of floats (additions from left to
    right up to Python 3.11, a compensated summation since);
  \<^item> \<open>fl_radians\<close>, \<open>fl_sin\<close>, \<open>fl_cos\<close>, \<open>fl_atan2\<close> are the functions of the module
    \<open>math\<close>, and \<open>fl_sqr x\<close> is \<open>x ** 2\<close>: the C library computes them, to no specified
    last bit.
  The integers 0, 1, 2 and 6371 of the sources convert to floats exactly and stand as
  themselves. A float is a finite number here: the infinities and NaN are not modelled.
\<close>

record float_arith =
  fl_round :: "real \<Rightarrow> real"
  fl_sum :: "real list \<Rightarrow> real"
  fl_radians :: "real \<Rightarrow> real"
  fl_sin :: "real \<Rightarrow> real"
  fl_cos :: "real \<Rightarrow> real"
  fl_sqr :: "real \<Rightarrow> real"
  fl_atan2 :: "real \<Rightarrow> real \<Rightarrow> real"

definition fl_add :: "float_arith \<Rightarrow> real \<Rightarrow> real \<Rightarrow> real" where
  "fl_add M x y = fl_round M (x + y)"

definition fl_sub :: "float_arith \<Rightarrow> real \<Rightarrow> real \<Rightarrow> real" where
  "fl_sub M x y = fl_round M (x - y)"

definition fl_mul :: "float_arith \<Rightarrow> real \<Rightarrow> real \<Rightarrow> real" where
  "fl_mul M x y = fl_round M (x * y)"

definition fl_div :: "float_arith \<Rightarrow> real \<Rightarrow> real \<Rightarrow> real" where
  "fl_div M x y = fl_round M (x / y)"

text \<open>\<open>math.sqrt\<close> raises \<open>ValueError\<close> on a negative argument.\<close>

definition math_sqrt :: "float_arith \<Rightarrow> real \<Rightarrow> py_error + real" where
  "math_sqrt M x = (if x < 0 then Inl ValueError else Inr (fl_round M (sqrt x)))"

text \<open>
  The exact functions behind \<open>math.radians\<close> and \<open>math.atan2(y, x)\<close>: the angle of the
  point \<open>(x, y)\<close>, in \<open>(-pi, pi]\<close>, with \<open>atan2(0, 0) = 0\<close>.
\<close>

definition radians :: "real \<Rightarrow> real" where
  "radians d = d * pi / 180"

definition atan2 :: "real \<Rightarrow> real \<Rightarrow> real" where
  "atan2 y x =
     (if x > 0 then arctan (y / x)
      else if x < 0 \<and> y \<ge> 0 then arctan (y / x) + pi
      else if x < 0 \<and> y < 0 then arctan (y / x) - pi
      else if y > 0 then pi / 2
      else if y < 0 then - pi / 2
      else 0)"

text \<open>Exact arithmetic: nothing is rounded.\<close>

definition exact_arith :: float_arith where
  "exact_arith =
     \<lparr>fl_round = (\<lambda>x. x),
      fl_sum = foldl (+) 0,
      fl_radians = radians,
      fl_sin = sin,
      fl_cos = cos,
      fl_sqr = (\<lambda>x. x\<^sup>2),
      fl_atan2 = atan2\<rparr>"

text \<open>
  The arithmetic of IEEE 754 doubles. \<open>binade x\<close> is the exponent \<open>e\<close> with
  \<open>2^e \<le> |x| < 2^(e+1)\<close>, found by halving or doubling (the exponents of doubles lie
  within 1100 of 0); \<open>ieee_round\<close> rounds to 53 significant bits, ties to the even
  significand. Overflow and the reduced precision of subnormal numbers are not
  modelled.
\<close>

fun binade_fuel :: "nat \<Rightarrow> real \<Rightarrow> int" where
  "binade_fuel 0 x = 0"
| "binade_fuel (Suc n) x =
     (if x \<ge> 2 then binade_fuel n (x / 2) + 1
      else if x < 1 then binade_fuel n (x * 2) - 1
      else 0)"

definition binade :: "real \<Rightarrow> int" where
  "binade x = binade_fuel 2200 \<bar>x\<bar>"

definition pow2 :: "int \<Rightarrow> real" where
  "pow2 e = (if e \<ge> 0 then 2 ^ nat e else 1 / 2 ^ nat (- e))"

definition ieee_round :: "real \<Rightarrow> real" where
  "ieee_round x =
     (if x = 0 then 0
      else sgn x * of_int (round_half_even (\<bar>x\<bar> / pow2 (binade x - 52))) *
           pow2 (binade x - 52))"

text \<open>
  \<open>math.radians(x)\<close> is \<open>x * degToRad\<close> in CPython, with the double \<open>degToRad\<close> nearest to
  \<open>pi / 180\<close>, which is \<open>5030569068109113 / 2^58\<close>.
\<close>

definition deg_to_rad :: real where
  "deg_to_rad = 5030569068109113 / 2 ^ 58"

text \<open>
  IEEE arithmetic over a C library that is given by its sine, cosine and arc tangent:
  the sum adds from left to right, and \<open>x ** 2\<close> is the rounded square.
\<close>

definition ieee_arith ::
  "(real \<Rightarrow> real) \<Rightarrow> (real \<Rightarrow> real) \<Rightarrow> (real \<Rightarrow> real \<Rightarrow> real) \<Rightarrow> float_arith"
where
  "ieee_arith libm_sin libm_cos libm_atan2 =
     \<lparr>fl_round = ieee_round,
      fl_sum = foldl (\<lambda>acc x. ieee_round (acc + x)) 0,
      fl_radians = (\<lambda>d. ieee_round (d * deg_to_rad)),
      fl_sin = libm_sin,
      fl_cos = libm_cos,
      fl_sqr = (\<lambda>x. ieee_round (x * x)),
      fl_atan2 = libm_atan2\<rparr>"

section \<open>Anti GPS system (src/anti\_gps.py)\<close>

text \<open>
  A detected signal is the dictionary \<open>signal_info\<close> that \<open>detect_gps_signals\<close> builds,
  with its six keys.
\<close>

record signal_info =
  frequency :: string
  frequency_mhz :: real
  strength :: real
  quality :: real
  timestamp :: string
  threat_level :: string

subsection \<open>The classifier\<close>

text \<open>
  Python's \<open>sum\<close> starts from 0 and adds the items from left to right.
\<close>

definition py_sum :: "real list \<Rightarrow> real" where
  "py_sum xs = foldl (+) 0 xs"

text \<open>
  \<^verbatim>\<open>
  def analyze_threat_level(self, signals):
      if not signals:
          return "none"
      total_strength = sum(s["strength"] for s in signals)
      avg_quality = sum(s["quality"] for s in signals) / len(signals)
      if total_strength > 2.0 and avg_quality > 0.8:
          return "critical"
      elif total_strength > 1.5 and avg_quality > 0.7:
          return "high"
      elif total_strength > 1.0:
          return "medium"
      else:
          return "low"
  \<close>
  The method reads no field of \<open>self\<close>, so the model takes the list only. First with
  exact arithmetic, the reading that the properties of the system object use.
\<close>

definition analyze_threat_level :: "signal_info list \<Rightarrow> string" where
  "analyze_threat_level signals =
     (if signals = [] then ''none''
      else
        let total_strength = py_sum (map strength signals);
            avg_quality = py_sum (map quality signals) / real (length signals)
        in if total_strength > 2.0 \<and> avg_quality > 0.8 then ''critical''
           else if total_strength > 1.5 \<and> avg_quality > 0.7 then ''high''
           else if total_strength > 1.0 then ''medium''
           else ''low'')"

text \<open>
  The same method over a float arithmetic \<open>M\<close>: the two sums are the built-in \<open>sum\<close>, the
  division and the five literals are rounded, and \<open>len(signals)\<close> converts to a float
  exactly (a list has fewer than \<open>2^53\<close> items). With exact arithmetic this is
  \<open>analyze_threat_level\<close> above.
\<close>

definition analyze_threat_level_fl :: "float_arith \<Rightarrow> signal_info list \<Rightarrow> string" where
  "analyze_threat_level_fl M signals =
     (if signals = [] then ''none''
      else
        let total_strength = fl_sum M (map strength signals);
            avg_quality = fl_div M (fl_sum M (map quality signals)) (real (length signals))
        in if total_strength > fl_round M 2.0 \<and> avg_quality > fl_round M 0.8 then ''critical''
           else if total_strength > fl_round M 1.5 \<and> avg_quality > fl_round M 0.7 then ''high''
           else if total_strength > fl_round M 1.0 then ''medium''
           else ''low'')"

text \<open>
  The reference definition, following the words of the specification: the sum of the
  strength fields, the mean of the quality fields, and a table of threshold bands in
  priority order, of which the first that holds gives the severity; \<open>low\<close> if none
  holds, \<open>none\<close> for the empty list. A band is a severity, the bound that the total
  strength exceeds and, for the first two, the bound that the mean quality exceeds. The
  numbers are floats: the sum and the mean are those of the arithmetic, and the bounds
  are the floats nearest to the numbers written.
\<close>

definition total_strength_spec :: "float_arith \<Rightarrow> signal_info list \<Rightarrow> real" where
  "total_strength_spec M signals = fl_sum M (map strength signals)"

definition avg_quality_spec :: "float_arith \<Rightarrow> signal_info list \<Rightarrow> real" where
  "avg_quality_spec M signals =
     fl_div M (fl_sum M (map quality signals)) (real (length signals))"

type_synonym threat_band = "string \<times> real \<times> real option"

definition threat_bands :: "float_arith \<Rightarrow> threat_band list" where
  "threat_bands M =
     [(''critical'', fl_round M 2.0, Some (fl_round M 0.8)),
      (''high'', fl_round M 1.5, Some (fl_round M 0.7)),
      (''medium'', fl_round M 1.0, None)]"

definition in_band :: "float_arith \<Rightarrow> signal_info list \<Rightarrow> threat_band \<Rightarrow> bool" where
  "in_band M signals b =
     (case b of (severity, min_strength, min_quality) \<Rightarrow>
        total_strength_spec M signals > min_strength \<and>
        (case min_quality of
           None \<Rightarrow> True
         | Some q \<Rightarrow> avg_quality_spec M signals > q))"

definition classify_spec :: "float_arith \<Rightarrow> signal_info list \<Rightarrow> string" where
  "classify_spec M signals =
     (if signals = [] then ''none''
      else case find (in_band M signals) (threat_bands M) of
             Some b \<Rightarrow> fst b
           | None \<Rightarrow> ''low'')"

text \<open>
  Three samples of strength 0.9 and quality 0.8, as floats: the mean of the three
  qualities, computed in doubles, is not the quality.
\<close>

definition threshold_sample :: signal_info where
  "threshold_sample =
     \<lparr>frequency = ''L1'', frequency_mhz = 1575.42, strength = ieee_round 0.9,
      quality = ieee_round 0.8, timestamp = ''2024-01-01T00:00:00'',
      threat_level = ''high''\<rparr>"



subsection \<open>The system object and its methods\<close>

text \<open>
  The fields of \<open>AntiGPSSystem\<close>. The two dictionaries are association lists in
  insertion order (\<open>detect_gps_signals\<close> iterates over \<open>gps_frequencies.items()\<close>).
\<close>

record anti_gps_system =
  is_active :: bool
  detection_mode :: string
  protection_level :: string
  gps_signals_detected :: "signal_info list"
  jamming_active :: bool
  log_file :: string
  gps_frequencies :: "(string \<times> real) list"
  protection_methods :: "(string \<times> string list) list"

text \<open>The dictionary that \<open>log_activity\<close> writes as one line of the log file.\<close>

record log_entry =
  le_timestamp :: string
  le_signals_detected :: nat
  le_threat_level :: string
  le_protection_active :: bool
  le_detection_mode :: string

type_synonym gps_world = "log_entry world"

text \<open>The emoji of the messages, as UTF-8 bytes.\<close>

definition emoji_shield :: string where
  "emoji_shield = [CHR 0xF0, CHR 0x9F, CHR 0x9B, CHR 0xA1, CHR 0xEF, CHR 0xB8, CHR 0x8F]"

definition emoji_magnifier :: string where
  "emoji_magnifier = [CHR 0xF0, CHR 0x9F, CHR 0x94, CHR 0x8D]"

definition emoji_warning :: string where
  "emoji_warning = [CHR 0xE2, CHR 0x9A, CHR 0xA0, CHR 0xEF, CHR 0xB8, CHR 0x8F]"

definition emoji_pin :: string where
  "emoji_pin = [CHR 0xF0, CHR 0x9F, CHR 0x93, CHR 0x8D]"

definition emoji_masks :: string where
  "emoji_masks = [CHR 0xF0, CHR 0x9F, CHR 0x8E, CHR 0xAD]"

definition emoji_antenna :: string where
  "emoji_antenna = [CHR 0xF0, CHR 0x9F, CHR 0x93, CHR 0xA1]"

definition emoji_check :: string where
  "emoji_check = [CHR 0xE2, CHR 0x9C, CHR 0x85]"

definition emoji_cross :: string where
  "emoji_cross = [CHR 0xE2, CHR 0x9D, CHR 0x8C]"

definition emoji_arrows :: string where
  "emoji_arrows = [CHR 0xF0, CHR 0x9F, CHR 0x94, CHR 0x84]"

definition emoji_lock :: string where
  "emoji_lock = [CHR 0xF0, CHR 0x9F, CHR 0x94, CHR 0x90]"

definition emoji_siren :: string where
  "emoji_siren = [CHR 0xF0, CHR 0x9F, CHR 0x9A, CHR 0xA8]"

definition emoji_stop :: string where
  "emoji_stop = [CHR 0xF0, CHR 0x9F, CHR 0x9B, CHR 0x91]"

text \<open>
  \<open>__init__\<close>: the initial fields, and the two lines it prints.
\<close>

definition init_system :: anti_gps_system where
  "init_system =
     \<lparr>is_active = False,
      detection_mode = ''passive'',
      protection_level = ''medium'',
      gps_signals_detected = [],
      jamming_active = False,
      log_file = ''anti_gps_log.txt'',
      gps_frequencies = [(''L1'', 1575.42), (''L2'', 1227.60), (''L5'', 1176.45)],
      protection_methods =
        [(''low'', [''signal_detection'', ''location_spoofing'']),
         (''medium'', [''signal_detection'', ''location_spoofing'', ''signal_jamming'']),
         (''high'', [''signal_detection'', ''location_spoofing'', ''signal_jamming'',
                    ''frequency_hopping'']),
         (''maximum'', [''signal_detection'', ''location_spoofing'', ''signal_jamming'',
                       ''frequency_hopping'', ''encryption''])]\<rparr>"

definition anti_gps_init :: "gps_world \<Rightarrow> anti_gps_system \<times> gps_world" where
  "anti_gps_init w =
     (init_system,
      print_line (replicate 50 CHR ''='')
        (print_line (emoji_shield @ '' Anti GPS System Initialized'') w))"

text \<open>
  \<open>detect_gps_signals\<close>. The body of its loop, for one band: the two draws, and the
  signal appended to \<open>signals\<close> when its strength is detectable (none otherwise).
  \<^verbatim>\<open>
  for freq_name, freq in self.gps_frequencies.items():
      signal_strength = random.uniform(0.1, 1.0)
      signal_quality = random.uniform(0.5, 0.95)
      if signal_strength > 0.3:
          signal_info = {...}
          signals.append(signal_info)
          print(f"... Detected {freq_name} signal: {signal_strength:.2f} strength")
  \<close>
\<close>

definition detect_band :: "string \<times> real \<Rightarrow> gps_world \<Rightarrow> signal_info option \<times> gps_world" where
  "detect_band band w =
     (case band of (freq_name, freq) \<Rightarrow>
      case random_uniform 0.1 1.0 w of (signal_strength, w1) \<Rightarrow>
      case random_uniform 0.5 0.95 w1 of (signal_quality, w2) \<Rightarrow>
        if signal_strength > 0.3 then
          (case datetime_now_isoformat w2 of (now, w3) \<Rightarrow>
             (Some \<lparr>frequency = freq_name,
                    frequency_mhz = freq,
                    strength = signal_strength,
                    quality = signal_quality,
                    timestamp = now,
                    threat_level = (if signal_strength > 0.7 then ''high'' else ''medium'')\<rparr>,
              print_line
                (emoji_warning @ ''  Detected '' @ freq_name @ '' signal: '' @
                 py_format_fixed 2 signal_strength @ '' strength'') w3))
        else (None, w2))"

text \<open>The loop over the bands, with the list \<open>signals\<close> built so far.\<close>

fun detect_loop ::
  "(string \<times> real) list \<Rightarrow> signal_info list \<Rightarrow> gps_world \<Rightarrow> signal_info list \<times> gps_world"
where
  "detect_loop [] signals w = (signals, w)"
| "detect_loop (band # rest) signals w =
     (case detect_band band w of
        (Some signal_info, w') \<Rightarrow> detect_loop rest (signals @ [signal_info]) w'
      | (None, w') \<Rightarrow> detect_loop rest signals w')"

text \<open>
  \<^verbatim>\<open>
  def detect_gps_signals(self):
      print("... Scanning for GPS signals...")
      signals = []
      for ...
      self.gps_signals_detected.extend(signals)
      return signals
  \<close>
  The result is the returned list, the object and the environment afterwards.
\<close>

definition detect_gps_signals ::
  "anti_gps_system \<Rightarrow> gps_world \<Rightarrow> signal_info list \<times> anti_gps_system \<times> gps_world"
where
  "detect_gps_signals self w =
     (case detect_loop (gps_frequencies self) []
             (print_line (emoji_magnifier @ '' Scanning for GPS signals...'') w)
      of (signals, w') \<Rightarrow>
        (signals,
         self\<lparr>gps_signals_detected := gps_signals_detected self @ signals\<rparr>,
         w'))"

text \<open>\<open>location_spoofing\<close>: a fake location drawn from five, with the time.\<close>

record fake_location =
  fl_lat :: real
  fl_lon :: real
  fl_name :: string

record spoof_data =
  original_location :: string
  spoofed_location :: fake_location
  sd_timestamp :: string
  sd_method :: string

definition fake_locations :: "fake_location list" where
  "fake_locations =
     [\<lparr>fl_lat = 40.7128, fl_lon = -74.0060, fl_name = ''New York''\<rparr>,
      \<lparr>fl_lat = 51.5074, fl_lon = -0.1278, fl_name = ''London''\<rparr>,
      \<lparr>fl_lat = 35.6762, fl_lon = 139.6503, fl_name = ''Tokyo''\<rparr>,
      \<lparr>fl_lat = -33.8688, fl_lon = 151.2093, fl_name = ''Sydney''\<rparr>,
      \<lparr>fl_lat = 55.7558, fl_lon = 37.6176, fl_name = ''Moscow''\<rparr>]"

definition location_spoofing :: "gps_world \<Rightarrow> spoof_data \<times> gps_world" where
  "location_spoofing w =
     (case random_choice fake_locations
             (print_line (emoji_pin @ '' Activating location spoofing...'') w)
      of (fake_location, w1) \<Rightarrow>
      case datetime_now_isoformat w1 of (now, w2) \<Rightarrow>
        (\<lparr>original_location = ''PROTECTED'',
          spoofed_location = fake_location,
          sd_timestamp = now,
          sd_method = ''location_spoofing''\<rparr>,
         print_line (emoji_masks @ '' Location spoofed to: '' @ fl_name fake_location) w2))"

text \<open>
  \<open>signal_jamming\<close> returns \<open>False\<close> on an empty list and the list of its results
  otherwise: the two shapes of its return value are the two constructors.
\<close>

record jamming_result =
  jr_frequency :: string
  jamming_power :: real
  success :: bool
  jr_timestamp :: string

datatype jamming_return = Return_False | Return_Results "jamming_result list"

text \<open>
  The body of the loop of \<open>signal_jamming\<close>, for one signal: the result appended to
  \<open>jamming_results\<close>.
  \<^verbatim>\<open>
  for signal in signals:
      jamming_power = random.uniform(0.6, 0.95)
      jamming_success = jamming_power > 0.7
      jamming_result = {...}
      jamming_results.append(jamming_result)
      status = ok if jamming_success else cross
      print(f"{status} Jamming {signal['frequency']}: {jamming_power:.2f} power")
  \<close>
\<close>

definition jam_signal :: "signal_info \<Rightarrow> gps_world \<Rightarrow> jamming_result \<times> gps_world" where
  "jam_signal signal w =
     (case random_uniform 0.6 0.95 w of (jpower, w1) \<Rightarrow>
      case datetime_now_isoformat w1 of (now, w2) \<Rightarrow>
        (\<lparr>jr_frequency = frequency signal,
          jamming_power = jpower,
          success = (jpower > 0.7),
          jr_timestamp = now\<rparr>,
         print_line
           ((if jpower > 0.7 then emoji_check else emoji_cross) @ '' Jamming '' @
            frequency signal @ '': '' @ py_format_fixed 2 jpower @ '' power'') w2))"

fun jamming_loop ::
  "signal_info list \<Rightarrow> jamming_result list \<Rightarrow> gps_world \<Rightarrow> jamming_result list \<times> gps_world"
where
  "jamming_loop [] jamming_results w = (jamming_results, w)"
| "jamming_loop (signal # rest) jamming_results w =
     (case jam_signal signal w of (jamming_result, w') \<Rightarrow>
        jamming_loop rest (jamming_results @ [jamming_result]) w')"

definition signal_jamming ::
  "signal_info list \<Rightarrow> anti_gps_system \<Rightarrow> gps_world \<Rightarrow>
   jamming_return \<times> anti_gps_system \<times> gps_world"
where
  "signal_jamming signals self w =
     (if signals = [] then (Return_False, self, w)
      else
        case jamming_loop signals []
               (print_line (emoji_antenna @ '' Activating signal jamming...'') w)
        of (jamming_results, w') \<Rightarrow>
          (Return_Results jamming_results,
           self\<lparr>jamming_active := list_ex success jamming_results\<rparr>,
           w'))"

text \<open>\<open>frequency_hopping\<close>: a pattern drawn from three, and a hop interval.\<close>

record hopping_data =
  pattern :: "real list"
  interval :: real
  hd_timestamp :: string
  hd_method :: string

definition hop_patterns :: "real list list" where
  "hop_patterns =
     [[1575.42, 1227.60, 1176.45],
      [2400.0, 5800.0, 900.0],
      [433.0, 868.0, 2400.0]]"

definition frequency_hopping :: "gps_world \<Rightarrow> hopping_data \<times> gps_world" where
  "frequency_hopping w =
     (case random_choice hop_patterns
             (print_line (emoji_arrows @ '' Activating frequency hopping...'') w)
      of (current_pattern, w1) \<Rightarrow>
      case random_uniform 0.1 0.5 w1 of (hop_interval, w2) \<Rightarrow>
      case datetime_now_isoformat w2 of (now, w3) \<Rightarrow>
        (\<lparr>pattern = current_pattern,
          interval = hop_interval,
          hd_timestamp = now,
          hd_method = ''frequency_hopping''\<rparr>,
         print_line
           (emoji_arrows @ '' Hopping pattern: '' @ str_nat (length current_pattern) @
            '' frequencies, '' @ py_format_fixed 2 hop_interval @ ''s interval'') w3))"

text \<open>\<open>encrypt_location_data\<close>: a key of 32 drawn hexadecimal digits.\<close>

record encrypted_data =
  encryption_key :: string
  algorithm :: string
  ed_timestamp :: string
  ed_method :: string

definition encrypt_location_data :: "gps_world \<Rightarrow> encrypted_data \<times> gps_world" where
  "encrypt_location_data w =
     (case random_choices ''0123456789ABCDEF'' 32
             (print_line (emoji_lock @ '' Encrypting location data...'') w)
      of (key, w1) \<Rightarrow>
      case datetime_now_isoformat w1 of (now, w2) \<Rightarrow>
        (\<lparr>encryption_key = key,
          algorithm = ''AES-256'',
          ed_timestamp = now,
          ed_method = ''encryption''\<rparr>,
         print_line (emoji_lock @ '' Data encrypted with key: '' @ take 8 key @ ''...'') w2))"

text \<open>
  \<open>apply_protection\<close> and \<open>apply_basic_protection\<close>: the dictionary of the results, its
  values computed in the order of the dictionary display.
\<close>

record protection_results =
  pr_location_spoofing :: spoof_data
  pr_signal_jamming :: jamming_return
  pr_frequency_hopping :: hopping_data
  pr_encryption :: encrypted_data

record basic_protection_results =
  bpr_location_spoofing :: spoof_data
  bpr_signal_jamming :: jamming_return

definition apply_protection ::
  "signal_info list \<Rightarrow> anti_gps_system \<Rightarrow> gps_world \<Rightarrow>
   protection_results \<times> anti_gps_system \<times> gps_world"
where
  "apply_protection signals self w =
     (case location_spoofing
             (print_line (emoji_shield @ '' Applying maximum protection...'') w)
      of (spoof, w1) \<Rightarrow>
      case signal_jamming signals self w1 of (jam, self', w2) \<Rightarrow>
      case frequency_hopping w2 of (hop, w3) \<Rightarrow>
      case encrypt_location_data w3 of (enc, w4) \<Rightarrow>
        (\<lparr>pr_location_spoofing = spoof,
          pr_signal_jamming = jam,
          pr_frequency_hopping = hop,
          pr_encryption = enc\<rparr>,
         self', w4))"

definition apply_basic_protection ::
  "signal_info list \<Rightarrow> anti_gps_system \<Rightarrow> gps_world \<Rightarrow>
   basic_protection_results \<times> anti_gps_system \<times> gps_world"
where
  "apply_basic_protection signals self w =
     (case location_spoofing
             (print_line (emoji_shield @ '' Applying basic protection...'') w)
      of (spoof, w1) \<Rightarrow>
      case signal_jamming signals self w1 of (jam, self', w2) \<Rightarrow>
        (\<lparr>bpr_location_spoofing = spoof, bpr_signal_jamming = jam\<rparr>, self', w2))"

text \<open>
  \<open>log_activity\<close> appends one entry to the log file. The write itself is taken to
  succeed.
\<close>

definition log_activity :: "signal_info list \<Rightarrow> anti_gps_system \<Rightarrow> gps_world \<Rightarrow> gps_world" where
  "log_activity signals self w =
     (case datetime_now_isoformat w of (now, w1) \<Rightarrow>
        w1\<lparr>files := (files w1)
              (log_file self := files w1 (log_file self) @
                 [\<lparr>le_timestamp = now,
                   le_signals_detected = length signals,
                   le_threat_level = analyze_threat_level signals,
                   le_protection_active = jamming_active self,
                   le_detection_mode = detection_mode self\<rparr>])\<rparr>)"

text \<open>
  One iteration of the loop of \<open>continuous_monitoring\<close> (a tick), without the sleep:
  \<^verbatim>\<open>
  signals = self.detect_gps_signals()
  if signals:
      threat_level = self.analyze_threat_level(signals)
      print(f"... Threat level: {threat_level.upper()}")
      if threat_level in ["high", "critical"]:
          self.apply_protection(signals)
      elif threat_level == "medium":
          self.apply_basic_protection(signals)
  self.log_activity(signals)
  \<close>
\<close>

definition continuous_monitoring_tick ::
  "anti_gps_system \<Rightarrow> gps_world \<Rightarrow> anti_gps_system \<times> gps_world"
where
  "continuous_monitoring_tick self w =
     (case detect_gps_signals self w of (signals, self1, w1) \<Rightarrow>
      case
        (if signals \<noteq> [] then
           let threat = analyze_threat_level signals;
               w2 = print_line (emoji_siren @ '' Threat level: '' @ py_upper threat) w1
           in if threat \<in> set [''high'', ''critical''] then
                (case apply_protection signals self1 w2 of (_, self2, w3) \<Rightarrow> (self2, w3))
              else if threat = ''medium'' then
                (case apply_basic_protection signals self1 w2 of (_, self2, w3) \<Rightarrow> (self2, w3))
              else (self1, w2)
         else (self1, w1))
      of (self3, w4) \<Rightarrow> (self3, log_activity signals self3 w4))"

text \<open>
  The entry of \<open>continuous_monitoring\<close>, before its loop: a message, and the flag set.
\<close>

definition continuous_monitoring_start ::
  "anti_gps_system \<Rightarrow> gps_world \<Rightarrow> anti_gps_system \<times> gps_world"
where
  "continuous_monitoring_start self w =
     (self\<lparr>is_active := True\<rparr>,
      print_line (emoji_arrows @ '' Starting continuous monitoring...'') w)"

text \<open>
  \<^verbatim>\<open>
  def set_protection_level(self, level):
      if level in self.protection_methods:
          self.protection_level = level
          print(f"... Protection level set to: {level.upper()}")
      else:
          print("... Invalid protection level. Use: low, medium, high, maximum")
  \<close>
\<close>

definition set_protection_level ::
  "string \<Rightarrow> anti_gps_system \<Rightarrow> gps_world \<Rightarrow> anti_gps_system \<times> gps_world"
where
  "set_protection_level level self w =
     (if level \<in> set (map fst (protection_methods self)) then
        (self\<lparr>protection_level := level\<rparr>,
         print_line (emoji_shield @ '' Protection level set to: '' @ py_upper level) w)
      else
        (self,
         print_line
           (emoji_cross @ '' Invalid protection level. Use: low, medium, high, maximum'') w))"

text \<open>
  \<^verbatim>\<open>
  def set_detection_mode(self, mode):
      valid_modes = ["passive", "active", "aggressive"]
      if mode in valid_modes:
          self.detection_mode = mode
          print(f"... Detection mode set to: {mode.upper()}")
      else:
          print("... Invalid detection mode. Use: passive, active, aggressive")
  \<close>
\<close>

definition set_detection_mode ::
  "string \<Rightarrow> anti_gps_system \<Rightarrow> gps_world \<Rightarrow> anti_gps_system \<times> gps_world"
where
  "set_detection_mode mode self w =
     (let valid_modes = [''passive'', ''active'', ''aggressive'']
      in if mode \<in> set valid_modes then
           (self\<lparr>detection_mode := mode\<rparr>,
            print_line (emoji_magnifier @ '' Detection mode set to: '' @ py_upper mode) w)
         else
           (self,
            print_line
              (emoji_cross @ '' Invalid detection mode. Use: passive, active, aggressive'') w))"

text \<open>\<open>get_status\<close>: the status dictionary; nothing is changed.\<close>

record status =
  st_active :: bool
  st_detection_mode :: string
  st_protection_level :: string
  st_signals_detected :: nat
  st_jamming_active :: bool
  st_threat_level :: string

definition get_status :: "anti_gps_system \<Rightarrow> status" where
  "get_status self =
     \<lparr>st_active = is_active self,
      st_detection_mode = detection_mode self,
      st_protection_level = protection_level self,
      st_signals_detected = length (gps_signals_detected self),
      st_jamming_active = jamming_active self,
      st_threat_level = analyze_threat_level (gps_signals_detected self)\<rparr>"

definition stop_monitoring :: "anti_gps_system \<Rightarrow> gps_world \<Rightarrow> anti_gps_system \<times> gps_world" where
  "stop_monitoring self w =
     (self\<lparr>is_active := False\<rparr>, print_line (emoji_stop @ '' Monitoring stopped'') w)"

subsection \<open>Notions used to state the properties of the system\<close>

text \<open>
  The strength drawn for the band at index \<open>i\<close> of a scan that starts in the
  environment \<open>w\<close>: each band takes two results of \<open>random.random()\<close>, the first for its
  strength, \<open>uniform(0.1, 1.0)\<close>.
\<close>

definition drawn_strength :: "gps_world \<Rightarrow> nat \<Rightarrow> real" where
  "drawn_strength w i =
     0.1 + (1.0 - 0.1) * (real (rand_src w (rand_pos w + 2 * i) mod 2 ^ 53) / 2 ^ 53)"

definition band_strength :: "signal_info \<Rightarrow> string \<times> real" where
  "band_strength s = (frequency s, strength s)"

text \<open>The messages that report an invalid configuration value.\<close>

definition invalid_level_message :: string where
  "invalid_level_message =
     emoji_cross @ '' Invalid protection level. Use: low, medium, high, maximum''"

definition invalid_mode_message :: string where
  "invalid_mode_message =
     emoji_cross @ '' Invalid detection mode. Use: passive, active, aggressive''"

text \<open>The lines that \<open>signal_jamming\<close> and \<open>encrypt_location_data\<close> print first.\<close>

definition jamming_message :: string where
  "jamming_message = emoji_antenna @ '' Activating signal jamming...''"

definition encryption_message :: string where
  "encryption_message = emoji_lock @ '' Encrypting location data...''"

text \<open>
  The public methods of \<open>AntiGPSSystem\<close> as calls, and the effect of a call on the
  object and the environment. The loop of \<open>continuous_monitoring\<close> is a sequence of
  \<open>Continuous_monitoring_tick\<close> calls.
\<close>

datatype method_call =
    Detect_gps_signals
  | Analyze_threat_level "signal_info list"
  | Location_spoofing
  | Signal_jamming "signal_info list"
  | Frequency_hopping
  | Encrypt_location_data
  | Continuous_monitoring_start
  | Continuous_monitoring_tick
  | Apply_protection "signal_info list"
  | Apply_basic_protection "signal_info list"
  | Log_activity "signal_info list"
  | Set_protection_level string
  | Set_detection_mode string
  | Get_status
  | Stop_monitoring

fun call :: "method_call \<Rightarrow> anti_gps_system \<times> gps_world \<Rightarrow> anti_gps_system \<times> gps_world" where
  "call Detect_gps_signals (self, w) = snd (detect_gps_signals self w)"
| "call (Analyze_threat_level signals) (self, w) = (self, w)"
| "call Location_spoofing (self, w) = (self, snd (location_spoofing w))"
| "call (Signal_jamming signals) (self, w) = snd (signal_jamming signals self w)"
| "call Frequency_hopping (self, w) = (self, snd (frequency_hopping w))"
| "call Encrypt_location_data (self, w) = (self, snd (encrypt_location_data w))"
| "call Continuous_monitoring_start (self, w) = continuous_monitoring_start self w"
| "call Continuous_monitoring_tick (self, w) = continuous_monitoring_tick self w"
| "call (Apply_protection signals) (self, w) = snd (apply_protection signals self w)"
| "call (Apply_basic_protection signals) (self, w) = snd (apply_basic_protection signals self w)"
| "call (Log_activity signals) (self, w) = (self, log_activity signals self w)"
| "call (Set_protection_level level) (self, w) = set_protection_level level self w"
| "call (Set_detection_mode mode) (self, w) = set_detection_mode mode self w"
| "call Get_status (self, w) = (self, w)"
| "call Stop_monitoring (self, w) = stop_monitoring self w"

text \<open>The signals that a call detects: the list its scan returns, if it scans.\<close>

fun scanned :: "method_call \<Rightarrow> anti_gps_system \<times> gps_world \<Rightarrow> signal_info list" where
  "scanned Detect_gps_signals (self, w) = fst (detect_gps_signals self w)"
| "scanned Continuous_monitoring_tick (self, w) = fst (detect_gps_signals self w)"
| "scanned c (self, w) = []"

text \<open>A sequence of calls, and all the signals detected during it, in order.\<close>

fun run :: "method_call list \<Rightarrow> anti_gps_system \<times> gps_world \<Rightarrow> anti_gps_system \<times> gps_world" where
  "run [] sw = sw"
| "run (c # cs) sw = run cs (call c sw)"

fun all_scanned :: "method_call list \<Rightarrow> anti_gps_system \<times> gps_world \<Rightarrow> signal_info list" where
  "all_scanned [] sw = []"
| "all_scanned (c # cs) sw = scanned c sw @ all_scanned cs (call c sw)"

text \<open>
  Environments for the examples: an empty output, no log, one fixed time, and every
  result of \<open>random.random()\<close> equal to 7/8 (strong signals: every scan is critical) or
  to 15/64 (weak signals: every scan is low).
\<close>

definition world_strong :: gps_world where
  "world_strong =
     \<lparr>rand_src = (\<lambda>n. 7 * 2 ^ 50), rand_pos = 0, below_src = (\<lambda>n. n), below_pos = 0,
      clock_src = (\<lambda>n. ''2024-01-01T00:00:00''), clock_pos = 0, stdout = [],
      files = (\<lambda>f. [])\<rparr>"

definition world_weak :: gps_world where
  "world_weak =
     \<lparr>rand_src = (\<lambda>n. 15 * 2 ^ 47), rand_pos = 0, below_src = (\<lambda>n. n), below_pos = 0,
      clock_src = (\<lambda>n. ''2024-01-01T00:00:00''), clock_pos = 0, stdout = [],
      files = (\<lambda>f. [])\<rparr>"

definition low_tier_system :: anti_gps_system where
  "low_tier_system = init_system\<lparr>protection_level := ''low''\<rparr>"


section \<open>Live location tracker (src/live\_locations.py)\<close>

text \<open>
  A location is the dictionary that \<open>get_current_location\<close> builds, with its nine
  keys; a sample location is an entry of the table \<open>sample_locations\<close>.
\<close>

record location =
  name :: string
  lat :: real
  lon :: real
  country :: string
  loc_timestamp :: string
  accuracy :: real
  speed :: real
  heading :: real
  altitude :: real

record sample_location =
  sl_name :: string
  sl_lat :: real
  sl_lon :: real
  sl_country :: string

text \<open>The dictionary that \<open>log_location\<close> writes as one line of the log file.\<close>

record location_log_entry =
  lle_timestamp :: string
  lle_location :: string
  lle_coordinates :: string
  lle_speed :: real
  lle_accuracy :: real

type_synonym loc_world = "location_log_entry world"

record live_location_tracker =
  is_tracking :: bool
  current_location :: "location option"
  location_history :: "location list"
  tracking_interval :: real
  lt_log_file :: string
  sample_locations :: "sample_location list"

definition init_tracker :: live_location_tracker where
  "init_tracker =
     \<lparr>is_tracking = False,
      current_location = None,
      location_history = [],
      tracking_interval = 1.0,
      lt_log_file = ''live_locations_log.txt'',
      sample_locations =
        [\<lparr>sl_name = ''New York'', sl_lat = 40.7128, sl_lon = -74.0060, sl_country = ''USA''\<rparr>,
         \<lparr>sl_name = ''London'', sl_lat = 51.5074, sl_lon = -0.1278, sl_country = ''UK''\<rparr>,
         \<lparr>sl_name = ''Tokyo'', sl_lat = 35.6762, sl_lon = 139.6503, sl_country = ''Japan''\<rparr>,
         \<lparr>sl_name = ''Paris'', sl_lat = 48.8566, sl_lon = 2.3522, sl_country = ''France''\<rparr>,
         \<lparr>sl_name = ''Sydney'', sl_lat = -33.8688, sl_lon = 151.2093,
           sl_country = ''Australia''\<rparr>,
         \<lparr>sl_name = ''Moscow'', sl_lat = 55.7558, sl_lon = 37.6176, sl_country = ''Russia''\<rparr>,
         \<lparr>sl_name = ''Beijing'', sl_lat = 39.9042, sl_lon = 116.4074, sl_country = ''China''\<rparr>,
         \<lparr>sl_name = ''Dubai'', sl_lat = 25.2048, sl_lon = 55.2708, sl_country = ''UAE''\<rparr>,
         \<lparr>sl_name = ''Singapore'', sl_lat = 1.3521, sl_lon = 103.8198,
           sl_country = ''Singapore''\<rparr>,
         \<lparr>sl_name = ''Mumbai'', sl_lat = 19.0760, sl_lon = 72.8777, sl_country = ''India''\<rparr>]\<rparr>"

text \<open>
  \<open>get_current_location\<close>: a sample location drawn from the table, moved by two small
  draws, with the time and four more draws, in the order of the source.
\<close>

definition get_current_location :: "live_location_tracker \<Rightarrow> loc_world \<Rightarrow> location \<times> loc_world" where
  "get_current_location self w =
     (case random_choice (sample_locations self) w of (loc, w1) \<Rightarrow>
      case random_uniform (- 0.001) 0.001 w1 of (lat_variation, w2) \<Rightarrow>
      case random_uniform (- 0.001) 0.001 w2 of (lon_variation, w3) \<Rightarrow>
      case datetime_now_isoformat w3 of (now, w4) \<Rightarrow>
      case random_uniform 5 20 w4 of (acc, w5) \<Rightarrow>
      case random_uniform 0 50 w5 of (spd, w6) \<Rightarrow>
      case random_uniform 0 360 w6 of (hdg, w7) \<Rightarrow>
      case random_uniform 0 1000 w7 of (alt, w8) \<Rightarrow>
        (\<lparr>name = sl_name loc,
          lat = sl_lat loc + lat_variation,
          lon = sl_lon loc + lon_variation,
          country = sl_country loc,
          loc_timestamp = now,
          accuracy = acc,
          speed = spd,
          heading = hdg,
          altitude = alt\<rparr>,
         w8))"

subsection \<open>Distances\<close>

text \<open>
  \<^verbatim>\<open>
  def calculate_distance(self, lat1, lon1, lat2, lon2):
      R = 6371
      lat1, lon1, lat2, lon2 = map(radians, [lat1, lon1, lat2, lon2])
      dlat = lat2 - lat1
      dlon = lon2 - lon1
      a = sin(dlat/2)**2 + cos(lat1) * cos(lat2) * sin(dlon/2)**2
      c = 2 * atan2(sqrt(a), sqrt(1-a))
      distance = R * c
      return distance
  \<close>
  over a float arithmetic \<open>M\<close>, every operation rounded, in the order in which Python
  evaluates them. The two square roots are the calls that can raise.
\<close>

definition calculate_distance ::
  "float_arith \<Rightarrow> real \<Rightarrow> real \<Rightarrow> real \<Rightarrow> real \<Rightarrow> py_error + real"
where
  "calculate_distance M lat1 lon1 lat2 lon2 =
     (let R = 6371;
          rlat1 = fl_radians M lat1; rlon1 = fl_radians M lon1;
          rlat2 = fl_radians M lat2; rlon2 = fl_radians M lon2;
          dlat = fl_sub M rlat2 rlat1;
          dlon = fl_sub M rlon2 rlon1;
          a = fl_add M (fl_sqr M (fl_sin M (fl_div M dlat 2)))
                (fl_mul M (fl_mul M (fl_cos M rlat1) (fl_cos M rlat2))
                   (fl_sqr M (fl_sin M (fl_div M dlon 2))))
      in case math_sqrt M a of
           Inl e \<Rightarrow> Inl e
         | Inr sa \<Rightarrow>
             (case math_sqrt M (fl_sub M 1 a) of
                Inl e \<Rightarrow> Inl e
              | Inr sb \<Rightarrow> Inr (fl_mul M R (fl_mul M 2 (fl_atan2 M sa sb)))))"

text \<open>
  \<^verbatim>\<open>
  def get_distance_traveled(self):
      if len(self.location_history) < 2:
          return 0
      total_distance = 0
      for i in range(1, len(self.location_history)):
          prev = self.location_history[i-1]
          curr = self.location_history[i]
          distance = self.calculate_distance(prev["lat"], prev["lon"],
                                             curr["lat"], curr["lon"])
          total_distance += distance
      return total_distance
  \<close>
  The loop runs over the indices of \<open>range(1, len)\<close>, with the total so far; both
  index reads are in range there. An exception of \<open>calculate_distance\<close> ends the loop
  and is the outcome of the method, which catches nothing.
\<close>

fun distance_loop ::
  "float_arith \<Rightarrow> location list \<Rightarrow> nat list \<Rightarrow> real \<Rightarrow> py_error + real"
where
  "distance_loop M history [] total_distance = Inr total_distance"
| "distance_loop M history (i # rest) total_distance =
     (let prev = history ! (i - 1); curr = history ! i
      in case calculate_distance M (lat prev) (lon prev) (lat curr) (lon curr) of
           Inl e \<Rightarrow> Inl e
         | Inr distance \<Rightarrow>
             distance_loop M history rest (fl_add M total_distance distance))"

definition get_distance_traveled ::
  "float_arith \<Rightarrow> live_location_tracker \<Rightarrow> py_error + real"
where
  "get_distance_traveled M self =
     (if length (location_history self) < 2 then Inr 0
      else distance_loop M (location_history self)
             [1..<length (location_history self)] 0)"

text \<open>
  The total over the consecutive pairs of the stored samples in their order, each
  distance added to the total so far; the first pair whose distance raises ends it.
\<close>

fun sum_consecutive :: "float_arith \<Rightarrow> location list \<Rightarrow> real \<Rightarrow> py_error + real" where
  "sum_consecutive M (p # q # rest) total_distance =
     (case calculate_distance M (lat p) (lon p) (lat q) (lon q) of
        Inl e \<Rightarrow> Inl e
      | Inr distance \<Rightarrow> sum_consecutive M (q # rest) (fl_add M total_distance distance))"
| "sum_consecutive M [p] total_distance = Inr total_distance"
| "sum_consecutive M [] total_distance = Inr total_distance"

text \<open>
  The reference definition, following the words of the specification: the haversine
  great-circle distance on a sphere of radius 6371 km, summed over the consecutive
  pairs of the stored samples in their order. These are the distances themselves, in
  real numbers.
\<close>

definition haversine_km :: "location \<Rightarrow> location \<Rightarrow> real" where
  "haversine_km p q =
     2 * 6371 *
     arcsin (sqrt ((sin ((radians (lat q) - radians (lat p)) / 2))\<^sup>2 +
                   cos (radians (lat p)) * cos (radians (lat q)) *
                   (sin ((radians (lon q) - radians (lon p)) / 2))\<^sup>2))"

fun total_distance_spec :: "location list \<Rightarrow> real" where
  "total_distance_spec (p # q # rest) = haversine_km p q + total_distance_spec (q # rest)"
| "total_distance_spec [p] = 0"
| "total_distance_spec [] = 0"

text \<open>
  The C library of the doubles: the sine, the cosine and the arc tangent correctly
  rounded. The sine and the cosine are written out at the arguments that the journey
  below reaches, where these are the values that \<open>math.sin\<close> and \<open>math.cos\<close> return.
\<close>

definition libm_sin :: "real \<Rightarrow> real" where
  "libm_sin x =
     (if x = 1719432786951357 / 2 ^ 50 then 8998626396882423 / 2 ^ 53
      else if x = 884279719003555 / 2 ^ 49 then 1
      else ieee_round (sin x))"

definition libm_cos :: "real \<Rightarrow> real" where
  "libm_cos x =
     (if \<bar>x\<bar> = 1719432786951357 / 2 ^ 50 then 3143108106954505 / 2 ^ 56
      else ieee_round (cos x))"

definition libm_atan2 :: "real \<Rightarrow> real \<Rightarrow> real" where
  "libm_atan2 y x = ieee_round (atan2 y x)"

definition ieee_libm :: float_arith where
  "ieee_libm = ieee_arith libm_sin libm_cos libm_atan2"

text \<open>
  A journey of two samples that are nearly antipodal: from 87.5 degrees south, 179
  degrees west to 87.5 degrees north, 1 degree east. The four coordinates are doubles.
\<close>

definition southern_location :: location where
  "southern_location =
     \<lparr>name = ''South'', lat = - 87.5, lon = - 179, country = ''Antarctica'',
      loc_timestamp = ''2024-01-01T00:00:00'', accuracy = 10, speed = 35.2, heading = 90,
      altitude = 10\<rparr>"

definition northern_location :: location where
  "northern_location =
     \<lparr>name = ''North'', lat = 87.5, lon = 1, country = ''Arctic'',
      loc_timestamp = ''2024-01-01T00:00:01'', accuracy = 10, speed = 35.2, heading = 90,
      altitude = 10\<rparr>"

definition antipodal_journey :: live_location_tracker where
  "antipodal_journey =
     init_tracker\<lparr>location_history := [southern_location, northern_location]\<rparr>"

subsection \<open>The history buffer\<close>

text \<open>
  \<open>log_location\<close> appends one entry to the log file.
\<close>

definition log_location :: "location \<Rightarrow> live_location_tracker \<Rightarrow> loc_world \<Rightarrow> loc_world" where
  "log_location loc self w =
     w\<lparr>files := (files w)
          (lt_log_file self := files w (lt_log_file self) @
             [\<lparr>lle_timestamp = loc_timestamp loc,
               lle_location = name loc,
               lle_coordinates =
                 py_format_fixed 6 (lat loc) @ '', '' @ py_format_fixed 6 (lon loc),
               lle_speed = speed loc,
               lle_accuracy = accuracy loc\<rparr>])\<rparr>"

text \<open>
  One iteration of \<open>tracking_loop\<close> (a tick), without the sleep:
  \<^verbatim>\<open>
  try:
      location = self.get_current_location()
      self.current_location = location
      self.location_history.append(location)
      if len(self.location_history) > 100:
          self.location_history = self.location_history[-100:]
      self.log_location(location)
      time.sleep(self.tracking_interval)
  except Exception as e:
      print(f"... Tracking error: {e}")
      time.sleep(1)
  \<close>
  The only statement that can raise is the write of the log file; \<open>log_error\<close> is the
  text of the exception it raises at this tick, if it raises. The slice \<open>[-100:]\<close> of a
  list longer than 100 is its last 100 items.
\<close>

definition tracking_tick ::
  "string option \<Rightarrow> live_location_tracker \<Rightarrow> loc_world \<Rightarrow> live_location_tracker \<times> loc_world"
where
  "tracking_tick log_error self w =
     (case get_current_location self w of (loc, w1) \<Rightarrow>
        let self1 = self\<lparr>current_location := Some loc\<rparr>;
            self2 = self1\<lparr>location_history := location_history self1 @ [loc]\<rparr>;
            self3 =
              (if length (location_history self2) > 100
               then self2\<lparr>location_history :=
                       drop (length (location_history self2) - 100) (location_history self2)\<rparr>
               else self2)
        in case log_error of
             None \<Rightarrow> (self3, log_location loc self3 w1)
           | Some e \<Rightarrow> (self3, print_line (emoji_cross @ '' Tracking error: '' @ e) w1))"

text \<open>
  The loop runs while another thread leaves \<open>is_tracking\<close> set: a run of the loop is a
  sequence of ticks, given by the outcome of the log write at each tick.
\<close>

fun tracking_loop ::
  "string option list \<Rightarrow> live_location_tracker \<Rightarrow> loc_world \<Rightarrow> live_location_tracker \<times> loc_world"
where
  "tracking_loop [] self w = (self, w)"
| "tracking_loop (log_error # rest) self w =
     (case tracking_tick log_error self w of (self', w') \<Rightarrow> tracking_loop rest self' w')"

text \<open>The samples that the ticks of a run append, in order.\<close>

fun sampled ::
  "string option list \<Rightarrow> live_location_tracker \<Rightarrow> loc_world \<Rightarrow> location list"
where
  "sampled [] self w = []"
| "sampled (log_error # rest) self w =
     fst (get_current_location self w) #
     (case tracking_tick log_error self w of (self', w') \<Rightarrow> sampled rest self' w')"

definition world_tracking :: loc_world where
  "world_tracking =
     \<lparr>rand_src = (\<lambda>n. n * 2 ^ 40), rand_pos = 0, below_src = (\<lambda>n. n), below_pos = 0,
      clock_src = (\<lambda>n. ''2024-01-01T00:00:00''), clock_pos = 0, stdout = [],
      files = (\<lambda>f. [])\<rparr>"

section \<open>Shareable links (src/shareable\_links.py)\<close>

text \<open>
  The generator object has one field, which \<open>generate_links\<close> does not read. A
  location is a dictionary from keys to values; the links are a dictionary from the
  link names to the URLs, in insertion order.
\<close>

record shareable_links_generator =
  supported_platforms :: "(string \<times> string list) list"

definition init_generator :: shareable_links_generator where
  "init_generator =
     \<lparr>supported_platforms =
        [(''maps'', [''Google Maps'', ''Apple Maps'', ''Waze'', ''Bing Maps'', ''OpenStreetMap'']),
         (''social'', [''WhatsApp'', ''Telegram'', ''Twitter'', ''Facebook'', ''LinkedIn'']),
         (''communication'', [''Email'', ''SMS'', ''Deep Link'']),
         (''custom'', [''Custom Text'', ''QR Code Data'', ''Short Link''])]\<rparr>"

type_synonym py_dict = "string \<rightharpoonup> py_value"

text \<open>\<open>d[key]\<close>, which raises \<open>KeyError\<close> on a missing key, and \<open>d.get(key, default)\<close>.\<close>

definition dict_item :: "py_dict \<Rightarrow> string \<Rightarrow> py_error + py_value" where
  "dict_item d key = (case d key of None \<Rightarrow> Inl (KeyError key) | Some v \<Rightarrow> Inr v)"

definition dict_get :: "py_dict \<Rightarrow> string \<Rightarrow> py_value \<Rightarrow> py_value" where
  "dict_get d key dflt = (case d key of None \<Rightarrow> dflt | Some v \<Rightarrow> v)"

text \<open>The emoji and the degree sign of the link texts, as UTF-8 bytes.\<close>

definition emoji_sun :: string where
  "emoji_sun = [CHR 0xF0, CHR 0x9F, CHR 0x8C, CHR 0xA4, CHR 0xEF, CHR 0xB8, CHR 0x8F]"

definition emoji_thermometer :: string where
  "emoji_thermometer = [CHR 0xF0, CHR 0x9F, CHR 0x8C, CHR 0xA1, CHR 0xEF, CHR 0xB8, CHR 0x8F]"

definition degree_sign :: string where
  "degree_sign = [CHR 0xC2, CHR 0xB0]"

definition emoji_traffic_light :: string where
  "emoji_traffic_light = [CHR 0xF0, CHR 0x9F, CHR 0x9A, CHR 0xA6]"

definition emoji_car :: string where
  "emoji_car = [CHR 0xF0, CHR 0x9F, CHR 0x9A, CHR 0x97]"

definition emoji_map :: string where
  "emoji_map = [CHR 0xF0, CHR 0x9F, CHR 0x97, CHR 0xBA, CHR 0xEF, CHR 0xB8, CHR 0x8F]"

text \<open>
  \<^verbatim>\<open>
  def generate_links(self, location):
      lat, lon = location["lat"], location["lon"]
      city_name = location["name"]
      country = location["country"]
      weather = location.get("weather", "Unknown")
      temperature = location.get("temperature", 0)
      traffic = location.get("traffic", "Unknown")
      speed = location.get("speed", 0)
      location_desc = f"{city_name}, {country}"
      links = {
          "google_maps": f"https://www.google.com/maps?q={lat},{lon}",
          ...
      }
      return links
  \<close>
  The four subscriptions can raise \<open>KeyError\<close>, in this order. In the dictionary display
  the fields \<open>{lat:.6f}\<close>, \<open>{lon:.6f}\<close>, \<open>{temperature:.1f}\<close> and \<open>{speed:.1f}\<close> can
  raise \<open>ValueError\<close>, and are first met in this order. The names \<open>lat\<close> and \<open>lon\<close> of
  the source are \<open>lat_v\<close> and \<open>lon_v\<close> here, and \<open>lat_s\<close>, \<open>lon_s\<close> are the texts of \<open>{lat}\<close> and
  \<open>{lon}\<close>. The entries of the display come first, as functions of the formatted texts.
\<close>


definition map_links :: "string \<Rightarrow> string \<Rightarrow> (string \<times> string) list" where
  "map_links lat_s lon_s =
     [(''google_maps'', ''https://www.google.com/maps?q='' @ lat_s @ '','' @ lon_s),
      (''apple_maps'', ''https://maps.apple.com/?q='' @ lat_s @ '','' @ lon_s),
      (''waze'', ''https://waze.com/ul?ll='' @ lat_s @ '','' @ lon_s @ ''&navigate=yes''),
      (''bing_maps'', ''https://www.bing.com/maps?cp='' @ lat_s @ ''~'' @ lon_s @ ''&lvl=15''),
      (''openstreetmap'',
       ''https://www.openstreetmap.org/?mlat='' @ lat_s @ ''&mlon='' @ lon_s @ ''&zoom=15'')]"

definition social_links ::
  "string \<Rightarrow> string \<Rightarrow> string \<Rightarrow> string \<Rightarrow> (string \<times> string) list"
where
  "social_links i_am_at coords6 maps_url location_desc =
     [(''whatsapp'', ''https://wa.me/?text='' @ i_am_at @ coords6),
      (''telegram'',
       ''https://t.me/share/url?url='' @ urllib_parse_quote maps_url @ ''&text='' @ i_am_at),
      (''twitter'',
       ''https://twitter.com/intent/tweet?text='' @ i_am_at @ coords6 @ ''&url='' @
       urllib_parse_quote maps_url),
      (''facebook'',
       ''https://www.facebook.com/sharer/sharer.php?u='' @ urllib_parse_quote maps_url),
      (''linkedin'',
       ''https://www.linkedin.com/sharing/share-offsite/?url='' @ urllib_parse_quote maps_url)]"

definition communication_links ::
  "string \<Rightarrow> string \<Rightarrow> string \<Rightarrow> string \<Rightarrow> string \<Rightarrow> string \<Rightarrow> (string \<times> string) list"
where
  "communication_links i_am_at coords6 maps_url location_desc lat_s lon_s =
     [(''email'',
       ''mailto:?subject='' @ emoji_pin @ '' My Location&body='' @ i_am_at @ coords6 @
       ''%0A%0AView on Google Maps: '' @ maps_url),
      (''sms'', ''sms:?body='' @ i_am_at @ coords6),
      (''deep_link'',
       ''geo:'' @ lat_s @ '','' @ lon_s @ ''?q='' @ urllib_parse_quote location_desc)]"

definition conditions_text :: "string \<Rightarrow> string \<Rightarrow> string \<Rightarrow> string \<Rightarrow> string" where
  "conditions_text weather temperature1 traffic speed1 =
     emoji_sun @ '' Weather: '' @ weather @ '' | '' @ emoji_thermometer @ '' '' @
     temperature1 @ degree_sign @ ''C%0A'' @ emoji_traffic_light @ '' Traffic: '' @ traffic @
     '' | '' @ emoji_car @ '' '' @ speed1 @ '' km/h''"

definition custom_links ::
  "string \<Rightarrow> string \<Rightarrow> string \<Rightarrow> string \<Rightarrow> string \<Rightarrow> (string \<times> string) list"
where
  "custom_links i_am_at coords6 maps_url location_desc conditions =
     [(''qr_code_data'', maps_url),
      (''custom_share'',
       i_am_at @ coords6 @ ''%0A%0A'' @ conditions @ ''%0A%0A'' @ emoji_map @
       '' View on Google Maps: '' @ maps_url),
      (''short_text'', emoji_pin @ '' '' @ location_desc @ coords6),
      (''detailed_text'',
       emoji_pin @ '' Location: '' @ location_desc @ ''%0A'' @ conditions @ ''%0A'' @
       emoji_map @ '' Maps: '' @ maps_url)]"

text \<open>
  The function itself. Its dictionary display is written in four parts above, in the
  order of the source: the map services, the social media, the communication links
  and the custom formats; \<open>coords6\<close> is the text \<open>({lat:.6f}, {lon:.6f})\<close> with the
  space before it.
\<close>

definition generate_links ::
  "shareable_links_generator \<Rightarrow> py_dict \<Rightarrow> py_error + (string \<times> string) list"
where
  "generate_links self loc =
     (case dict_item loc ''lat'' of Inl e \<Rightarrow> Inl e | Inr lat_v \<Rightarrow>
      case dict_item loc ''lon'' of Inl e \<Rightarrow> Inl e | Inr lon_v \<Rightarrow>
      case dict_item loc ''name'' of Inl e \<Rightarrow> Inl e | Inr city_name \<Rightarrow>
      case dict_item loc ''country'' of Inl e \<Rightarrow> Inl e | Inr country_v \<Rightarrow>
        let weather = format_plain (dict_get loc ''weather'' (PyStr ''Unknown''));
            temperature = dict_get loc ''temperature'' (PyInt 0);
            traffic = format_plain (dict_get loc ''traffic'' (PyStr ''Unknown''));
            speed_v = dict_get loc ''speed'' (PyInt 0);
            location_desc = format_plain city_name @ '', '' @ format_plain country_v;
            lat_s = format_plain lat_v;
            lon_s = format_plain lon_v;
            maps_url = ''https://maps.google.com/?q='' @ lat_s @ '','' @ lon_s;
            i_am_at = emoji_pin @ '' I'' @ [CHR 0x27] @ ''m at '' @ location_desc
        in
          case format_fixed 6 lat_v of Inl e \<Rightarrow> Inl e | Inr lat6 \<Rightarrow>
          case format_fixed 6 lon_v of Inl e \<Rightarrow> Inl e | Inr lon6 \<Rightarrow>
          case format_fixed 1 temperature of Inl e \<Rightarrow> Inl e | Inr temperature1 \<Rightarrow>
          case format_fixed 1 speed_v of Inl e \<Rightarrow> Inl e | Inr speed1 \<Rightarrow>
            let coords6 = '' ('' @ lat6 @ '', '' @ lon6 @ '')''
            in Inr (map_links lat_s lon_s @
                    social_links i_am_at coords6 maps_url location_desc @
                    communication_links i_am_at coords6 maps_url location_desc lat_s lon_s @
                    custom_links i_am_at coords6 maps_url location_desc
                      (conditions_text weather temperature1 traffic speed1)))"

text \<open>A link of the result, by its name: none when the call raised.\<close>

definition link_of :: "string \<Rightarrow> py_error + (string \<times> string) list \<Rightarrow> string option" where
  "link_of key result = (case result of Inl e \<Rightarrow> None | Inr links \<Rightarrow> map_of links key)"

text \<open>
  A location is well formed for \<open>generate_links\<close> when the keys it subscripts are there
  and the values it formats as numbers are numbers.
\<close>

definition is_number :: "py_value \<Rightarrow> bool" where
  "is_number v = (case v of PyStr s \<Rightarrow> False | PyFloat x \<Rightarrow> True | PyInt i \<Rightarrow> True)"

definition well_formed_location :: "py_dict \<Rightarrow> bool" where
  "well_formed_location loc =
     (loc ''name'' \<noteq> None \<and> loc ''country'' \<noteq> None \<and>
      is_number (dict_get loc ''lat'' (PyStr [])) \<and>
      is_number (dict_get loc ''lon'' (PyStr [])) \<and>
      is_number (dict_get loc ''temperature'' (PyInt 0)) \<and>
      is_number (dict_get loc ''speed'' (PyInt 0)))"

text \<open>The location of \<open>demo_shareable_links\<close>.\<close>

definition demo_location :: py_dict where
  "demo_location =
     map_of
       [(''name'', PyStr ''New York''),
        (''lat'', PyFloat 40.7128),
        (''lon'', PyFloat (- 74.0060)),
        (''country'', PyStr ''USA''),
        (''weather'', PyStr ''Sunny''),
        (''temperature'', PyFloat 22.5),
        (''traffic'', PyStr ''Moderate''),
        (''speed'', PyFloat 35.2)]"

section \<open>Evaluation of the double arithmetic\<close>

lemma binade_fuel_numeral:
  "binade_fuel (numeral k) x =
     (if x \<ge> 2 then binade_fuel (pred_numeral k) (x / 2) + 1
      else if x < 1 then binade_fuel (pred_numeral k) (x * 2) - 1
      else 0)"
  by (simp add: numeral_eq_Suc)

lemmas ieee_eval =
  ieee_round_def binade_def binade_fuel_numeral pow2_def round_half_even_def Let_def

lemma ieee_round_literals:
  "ieee_round 2.0 = 2" "ieee_round 1.5 = 3 / 2" "ieee_round 1.0 = 1"
  "ieee_round 0.8 = 3602879701896397 / 2 ^ 52"
  "ieee_round 0.7 = 3152519739159347 / 2 ^ 52"
  "ieee_round 0.9 = 8106479329266893 / 2 ^ 53"
  by (simp_all add: ieee_eval)

section \<open>Properties of the classifier\<close>



text \<open>
  C1. For every list of signal samples, and whatever the float arithmetic,
  \<open>analyze_threat_level\<close> equals the reference definition: \<open>none\<close> on the empty list;
  otherwise, from the sum of the strengths and the mean of the qualities, \<open>critical\<close> if
  the sum exceeds 2.0 and the mean 0.8, else \<open>high\<close> if the sum exceeds 1.5 and the mean
  0.7, else \<open>medium\<close> if the sum exceeds 1.0, else \<open>low\<close>, the checks taken in that
  order.
\<close>

theorem analyze_threat_level_refines_spec:
  "analyze_threat_level_fl M signals = classify_spec M signals"
  by (simp add: analyze_threat_level_fl_def classify_spec_def threat_bands_def in_band_def
      total_strength_spec_def avg_quality_spec_def Let_def)

text \<open>With exact arithmetic the classifier is \<open>analyze_threat_level\<close>.\<close>

lemma analyze_threat_level_exact:
  "analyze_threat_level_fl exact_arith signals = analyze_threat_level signals"
  by (simp add: analyze_threat_level_fl_def analyze_threat_level_def exact_arith_def
      fl_div_def py_sum_def Let_def)

lemma threshold_sample_fields:
  "strength threshold_sample = 8106479329266893 / 2 ^ 53"
  "quality threshold_sample = 3602879701896397 / 2 ^ 52"
  unfolding threshold_sample_def ieee_round_literals by simp_all

lemma threshold_total:
  "fl_sum ieee_libm (map strength [threshold_sample, threshold_sample, threshold_sample]) =
   3039929748475085 / 2 ^ 50"
  unfolding list.map threshold_sample_fields
  by (simp add: ieee_libm_def ieee_arith_def ieee_eval)

lemma threshold_mean:
  "fl_div ieee_libm
     (fl_sum ieee_libm (map quality [threshold_sample, threshold_sample, threshold_sample]))
     (real (length [threshold_sample, threshold_sample, threshold_sample])) =
   7205759403792795 / 2 ^ 53"
  unfolding list.map threshold_sample_fields
  by (simp add: ieee_libm_def ieee_arith_def fl_div_def ieee_eval)

lemma ieee_libm_round: "fl_round ieee_libm = ieee_round"
  by (simp add: ieee_libm_def ieee_arith_def)

text \<open>
  In doubles, three samples of strength 0.9 and quality 0.8 are classified \<open>critical\<close>:
  the sum of the three qualities is 2.4000000000000004 and their mean
  0.8000000000000002, which exceeds the bound 0.8.
\<close>

theorem analyze_threat_level_three_samples:
  "analyze_threat_level_fl ieee_libm [threshold_sample, threshold_sample, threshold_sample]
   = ''critical''"
  unfolding analyze_threat_level_fl_def Let_def threshold_total threshold_mean
    ieee_libm_round ieee_round_literals
  by simp





section \<open>Properties of the system object\<close>

subsection \<open>The scan\<close>

lemma upt_Suc_shift: "[0..<Suc n] = 0 # map Suc [0..<n]"
  by (simp add: upt_conv_Cons map_Suc_upt del: upt_Suc)

lemma detect_band_rand:
  "rand_src (snd (detect_band band w)) = rand_src w"
  "rand_pos (snd (detect_band band w)) = rand_pos w + 2"
  by (simp_all add: detect_band_def random_uniform_def py_random_def datetime_now_isoformat_def
      print_line_def case_prod_beta)

lemma detect_band_result:
  "map_option band_strength (fst (detect_band band w)) =
     (if drawn_strength w 0 > 0.3 then Some (fst band, drawn_strength w 0) else None)"
  by (simp add: detect_band_def random_uniform_def py_random_def datetime_now_isoformat_def
      print_line_def case_prod_beta drawn_strength_def band_strength_def)

lemma drawn_strength_shift:
  "drawn_strength (snd (detect_band band w)) i = drawn_strength w (Suc i)"
  by (simp add: drawn_strength_def detect_band_rand)

lemma detect_loop_filter:
  "map band_strength (fst (detect_loop bands acc w)) =
   map band_strength acc @
   filter (\<lambda>(band, st). st > 0.3)
     (map (\<lambda>i. (fst (bands ! i), drawn_strength w i)) [0..<length bands])"
proof (induction bands arbitrary: acc w)
  case Nil
  then show ?case by simp
next
  case (Cons b bands)
  show ?case
  proof (cases "fst (detect_band b w)")
    case None
    with detect_band_result [of b w] have "\<not> drawn_strength w 0 > 0.3"
      by (simp split: if_splits)
    moreover from None
    have "detect_loop (b # bands) acc w = detect_loop bands acc (snd (detect_band b w))"
      by (simp add: case_prod_beta)
    ultimately show ?thesis
      by (simp add: Cons.IH upt_Suc_shift comp_def drawn_strength_shift
          del: upt_Suc detect_loop.simps)
  next
    case (Some s)
    with detect_band_result [of b w]
    have "drawn_strength w 0 > 0.3" "band_strength s = (fst b, drawn_strength w 0)"
      by (simp_all split: if_splits)
    moreover from Some
    have "detect_loop (b # bands) acc w =
          detect_loop bands (acc @ [s]) (snd (detect_band b w))"
      by (simp add: case_prod_beta)
    ultimately show ?thesis
      by (simp add: Cons.IH upt_Suc_shift comp_def drawn_strength_shift
          del: upt_Suc detect_loop.simps)
  qed
qed

lemma detect_gps_signals_filter:
  "map band_strength (fst (detect_gps_signals self w)) =
   filter (\<lambda>(band, st). st > 0.3)
     (map (\<lambda>i. (fst (gps_frequencies self ! i), drawn_strength w i))
        [0..<length (gps_frequencies self)])"
proof -
  have "drawn_strength (print_line s w) i = drawn_strength w i" for s i
    by (simp add: drawn_strength_def print_line_def)
  then show ?thesis
    by (simp add: detect_gps_signals_def case_prod_beta detect_loop_filter)
qed

lemma detect_gps_signals_self:
  "fst (snd (detect_gps_signals self w)) =
   self\<lparr>gps_signals_detected := gps_signals_detected self @ fst (detect_gps_signals self w)\<rparr>"
  by (simp add: detect_gps_signals_def case_prod_beta)

subsection \<open>What each method leaves of the detected list\<close>

lemma signal_jamming_detected:
  "gps_signals_detected (fst (snd (signal_jamming signals self w))) = gps_signals_detected self"
  by (simp add: signal_jamming_def case_prod_beta)

lemma apply_protection_detected:
  "gps_signals_detected (fst (snd (apply_protection signals self w))) =
   gps_signals_detected self"
  by (simp add: apply_protection_def case_prod_beta signal_jamming_detected)

lemma apply_basic_protection_detected:
  "gps_signals_detected (fst (snd (apply_basic_protection signals self w))) =
   gps_signals_detected self"
  by (simp add: apply_basic_protection_def case_prod_beta signal_jamming_detected)

lemma continuous_monitoring_tick_detected:
  "gps_signals_detected (fst (continuous_monitoring_tick self w)) =
   gps_signals_detected self @ fst (detect_gps_signals self w)"
  by (simp add: continuous_monitoring_tick_def case_prod_beta Let_def
      apply_protection_detected apply_basic_protection_detected detect_gps_signals_self)

lemma call_detected:
  "gps_signals_detected (fst (call c sw)) = gps_signals_detected (fst sw) @ scanned c sw"
proof -
  obtain self w where sw: "sw = (self, w)" by (cases sw)
  show ?thesis
    unfolding sw
    by (cases c)
      (simp_all add: detect_gps_signals_self signal_jamming_detected apply_protection_detected
        apply_basic_protection_detected continuous_monitoring_tick_detected
        continuous_monitoring_start_def set_protection_level_def set_detection_mode_def
        stop_monitoring_def Let_def)
qed

lemma run_detected:
  "gps_signals_detected (fst (run cs sw)) = gps_signals_detected (fst sw) @ all_scanned cs sw"
  by (induction cs arbitrary: sw) (simp_all add: call_detected)
subsection \<open>Evaluation on the example environments\<close>

lemma drawn_strength_strong: "drawn_strength world_strong i = 71 / 80"
  by (simp add: drawn_strength_def world_strong_def)

lemma drawn_strength_weak: "drawn_strength world_weak i = 199 / 640"
  by (simp add: drawn_strength_def world_weak_def)

lemma py_format_fixed_examples:
  "py_format_fixed 2 (71 / 80) = ''0.89''"
  "py_format_fixed 2 (199 / 640) = ''0.31''"
  by (simp_all add: py_format_fixed_def round_half_even_def str_nat.simps zero_pad_def
      digit_char_def)

lemma detect_band_strong:
  "rand_src w = (\<lambda>n. 7 * 2 ^ 50) \<Longrightarrow>
   detect_band (band, f) w =
     (Some \<lparr>frequency = band, frequency_mhz = f, strength = 71 / 80, quality = 143 / 160,
            timestamp = clock_src w (clock_pos w), threat_level = ''high''\<rparr>,
      w\<lparr>rand_pos := rand_pos w + 2, clock_pos := clock_pos w + 1,
        stdout := stdout w @
          [emoji_warning @ ''  Detected '' @ band @ '' signal: 0.89 strength'']\<rparr>)"
  by (simp add: detect_band_def random_uniform_def py_random_def datetime_now_isoformat_def
      print_line_def py_format_fixed_examples)

lemma detect_band_weak:
  "rand_src w = (\<lambda>n. 15 * 2 ^ 47) \<Longrightarrow>
   detect_band (band, f) w =
     (Some \<lparr>frequency = band, frequency_mhz = f, strength = 199 / 640, quality = 155 / 256,
            timestamp = clock_src w (clock_pos w), threat_level = ''medium''\<rparr>,
      w\<lparr>rand_pos := rand_pos w + 2, clock_pos := clock_pos w + 1,
        stdout := stdout w @
          [emoji_warning @ ''  Detected '' @ band @ '' signal: 0.31 strength'']\<rparr>)"
  by (simp add: detect_band_def random_uniform_def py_random_def datetime_now_isoformat_def
      print_line_def py_format_fixed_examples)

lemma scan_strong:
  assumes "rand_src w = (\<lambda>n. 7 * 2 ^ 50)"
    and "gps_frequencies self = gps_frequencies init_system"
  shows "map strength (fst (detect_gps_signals self w)) = [71 / 80, 71 / 80, 71 / 80]"
    and "map quality (fst (detect_gps_signals self w)) = [143 / 160, 143 / 160, 143 / 160]"
  using assms
  by (simp_all add: detect_gps_signals_def init_system_def detect_band_strong print_line_def)

lemma scan_weak:
  assumes "rand_src w = (\<lambda>n. 15 * 2 ^ 47)"
    and "gps_frequencies self = gps_frequencies init_system"
  shows "map strength (fst (detect_gps_signals self w)) = [199 / 640, 199 / 640, 199 / 640]"
    and "map quality (fst (detect_gps_signals self w)) = [155 / 256, 155 / 256, 155 / 256]"
    and "rand_src (snd (snd (detect_gps_signals self w))) = (\<lambda>n. 15 * 2 ^ 47)"
    and "gps_frequencies (fst (snd (detect_gps_signals self w))) = gps_frequencies init_system"
  using assms
  by (simp_all add: detect_gps_signals_def init_system_def detect_band_weak print_line_def)

lemma analyze_threat_level_maps:
  "analyze_threat_level signals =
     (if map strength signals = [] then ''none''
      else if py_sum (map strength signals) > 2.0 \<and>
              py_sum (map quality signals) / real (length (map strength signals)) > 0.8
        then ''critical''
      else if py_sum (map strength signals) > 1.5 \<and>
              py_sum (map quality signals) / real (length (map strength signals)) > 0.7
        then ''high''
      else if py_sum (map strength signals) > 1.0 then ''medium''
      else ''low'')"
  by (simp add: analyze_threat_level_def Let_def)

lemma threat_strong:
  assumes "rand_src w = (\<lambda>n. 7 * 2 ^ 50)"
    and "gps_frequencies self = gps_frequencies init_system"
  shows "analyze_threat_level (fst (detect_gps_signals self w)) = ''critical''"
  unfolding analyze_threat_level_maps scan_strong [OF assms]
  by (simp add: py_sum_def)
subsection \<open>The scan and the state of the object\<close>

text \<open>
  C6, as the specification states it: the scan leaves every field of the object
  unchanged. It does not: on the initial object, with strong signals, the scan changes
  the object.
\<close>

theorem detect_gps_signals_changes_state:
  "fst (snd (detect_gps_signals init_system world_strong)) \<noteq> init_system"
proof -
  have "map strength (fst (detect_gps_signals init_system world_strong)) =
        [71 / 80, 71 / 80, 71 / 80]"
    by (rule scan_strong) (simp_all add: world_strong_def)
  then have "fst (detect_gps_signals init_system world_strong) \<noteq> []"
    by auto
  then have "gps_signals_detected (fst (snd (detect_gps_signals init_system world_strong)))
             \<noteq> gps_signals_detected init_system"
    by (simp add: detect_gps_signals_self init_system_def)
  then show ?thesis by auto
qed

text \<open>
  C6, amended: \<open>detect_gps_signals\<close> returns its list of detected signals and appends
  that list to the field \<open>gps_signals_detected\<close> of the object; every other field of the
  object is left unchanged.
\<close>

theorem detect_gps_signals_frame:
  "fst (snd (detect_gps_signals self w)) =
   self\<lparr>gps_signals_detected := gps_signals_detected self @ fst (detect_gps_signals self w)\<rparr>"
  by (simp add: detect_gps_signals_def case_prod_beta)

text \<open>
  C10. The list \<open>gps_signals_detected\<close> only grows: a scan appends every signal whose
  drawn strength exceeds 0.3 (and no other), no method removes an entry, so after any
  sequence of calls the list is the initial one followed by all the signals detected
  during the sequence, and \<open>get_status\<close> reports the threat level of that whole list.
\<close>

theorem gps_signals_detected_cumulative:
  "map band_strength (scanned Detect_gps_signals (self, w)) =
     filter (\<lambda>(band, st). st > 0.3)
       (map (\<lambda>i. (fst (gps_frequencies self ! i), drawn_strength w i))
          [0..<length (gps_frequencies self)])
   \<and> gps_signals_detected (fst (call c (self, w))) =
       gps_signals_detected self @ scanned c (self, w)
   \<and> gps_signals_detected (fst (run cs (self, w))) =
       gps_signals_detected self @ all_scanned cs (self, w)
   \<and> st_signals_detected (get_status (fst (run cs (self, w)))) =
       length (gps_signals_detected self) + length (all_scanned cs (self, w))
   \<and> st_threat_level (get_status (fst (run cs (self, w)))) =
       analyze_threat_level (gps_signals_detected self @ all_scanned cs (self, w))"
  using call_detected [of c "(self, w)"] run_detected [of cs "(self, w)"]
  by (simp add: detect_gps_signals_filter get_status_def)

text \<open>
  An instance: two scans of weak signals from the initial object. Each scan alone is of
  low severity, the status after both reports medium, over the six signals.
\<close>

lemma scanned_detect:
  "scanned Detect_gps_signals sw = fst (detect_gps_signals (fst sw) (snd sw))"
  by (cases sw) simp

theorem gps_signals_detected_cumulative_example:
  "analyze_threat_level (scanned Detect_gps_signals (init_system, world_weak)) = ''low''
   \<and> analyze_threat_level
       (scanned Detect_gps_signals (call Detect_gps_signals (init_system, world_weak))) = ''low''
   \<and> st_signals_detected
       (get_status (fst (run [Detect_gps_signals, Detect_gps_signals] (init_system, world_weak))))
       = 6
   \<and> st_threat_level
       (get_status (fst (run [Detect_gps_signals, Detect_gps_signals] (init_system, world_weak))))
       = ''medium''"
proof -
  let ?s1 = "fst (detect_gps_signals init_system world_weak)"
  let ?sw = "snd (detect_gps_signals init_system world_weak)"
  let ?s2 = "fst (detect_gps_signals (fst ?sw) (snd ?sw))"
  have w: "rand_src world_weak = (\<lambda>n. 15 * 2 ^ 47)"
    by (simp add: world_weak_def)
  note first = scan_weak [OF w refl]
  note second = scan_weak [OF first(3) first(4)]
  have both: "map strength (?s1 @ ?s2) = replicate 6 (199 / 640)"
    "map quality (?s1 @ ?s2) = replicate 6 (155 / 256)"
    by (simp_all add: first second numeral_eq_Suc)
  have 1: "analyze_threat_level ?s1 = ''low''"
    unfolding analyze_threat_level_maps first by (simp add: py_sum_def)
  have 2: "analyze_threat_level ?s2 = ''low''"
    unfolding analyze_threat_level_maps second by (simp add: py_sum_def)
  have 3: "analyze_threat_level (?s1 @ ?s2) = ''medium''"
    unfolding analyze_threat_level_maps both by (simp add: py_sum_def numeral_eq_Suc)
  have 4: "length (?s1 @ ?s2) = 6"
    using arg_cong [OF both(1), of length] by simp
  have sc: "all_scanned [Detect_gps_signals, Detect_gps_signals] (init_system, world_weak)
            = ?s1 @ ?s2"
    by (simp add: scanned_detect)
  have "scanned Detect_gps_signals (call Detect_gps_signals (init_system, world_weak)) = ?s2"
    by (simp add: scanned_detect)
  with 1 2 3 4 sc
  show ?thesis
    using gps_signals_detected_cumulative
      [of init_system world_weak Detect_gps_signals "[Detect_gps_signals, Detect_gps_signals]"]
    by (simp add: init_system_def)
qed
subsection \<open>Jamming\<close>

lemma jamming_loop_frequency:
  "map jr_frequency (fst (jamming_loop signals acc w)) =
   map jr_frequency acc @ map frequency signals"
  by (induction signals arbitrary: acc w)
    (simp_all add: case_prod_beta jam_signal_def random_uniform_def datetime_now_isoformat_def)

text \<open>
  C7, as the specification states it: the responder returns a list of records for
  every sample list, the empty one included. On the empty list \<open>signal_jamming\<close>
  returns \<open>False\<close>, which is no list (not even the empty one).
\<close>

theorem signal_jamming_empty_returns_False:
  "fst (signal_jamming [] init_system world_strong) = Return_False
   \<and> fst (signal_jamming [] init_system world_strong) \<noteq> Return_Results []"
  by (simp add: signal_jamming_def)

text \<open>
  C7, amended: \<open>signal_jamming\<close> always completes and has no error result. For every
  non-empty sample list it returns a list of jamming records, one for each sample in
  order, with the frequency of the sample; for the empty list it returns \<open>False\<close>, which
  is no list, and changes nothing.
\<close>

theorem signal_jamming_result:
  "(case fst (signal_jamming signals self w) of
      Return_False \<Rightarrow> signals = [] \<and> snd (signal_jamming signals self w) = (self, w)
    | Return_Results results \<Rightarrow>
        signals \<noteq> [] \<and> map jr_frequency results = map frequency signals)"
  by (simp add: signal_jamming_def case_prod_beta jamming_loop_frequency)

subsection \<open>What a tick prints\<close>

lemma stdout_print_line: "stdout (print_line s w) = stdout w @ [s]"
  by (simp add: print_line_def)

lemma random_choices_stdout: "stdout (snd (random_choices population k w)) = stdout w"
  by (induction k arbitrary: w) (simp_all add: case_prod_beta py_random_def)

lemma jamming_loop_stdout:
  "set (stdout w) \<subseteq> set (stdout (snd (jamming_loop signals acc w)))"
proof (induction signals arbitrary: acc w)
  case Nil
  then show ?case by simp
next
  case (Cons s signals)
  have "set (stdout w) \<subseteq> set (stdout (snd (jam_signal s w)))"
    by (auto simp: jam_signal_def case_prod_beta random_uniform_def py_random_def
        datetime_now_isoformat_def print_line_def)
  with Cons.IH [of "snd (jam_signal s w)" "acc @ [fst (jam_signal s w)]"]
  show ?case
    by (auto simp: case_prod_beta)
qed

lemma signal_jamming_stdout:
  "set (stdout w) \<subseteq> set (stdout (snd (snd (signal_jamming signals self w))))"
  "signals \<noteq> [] \<Longrightarrow>
   jamming_message \<in> set (stdout (snd (snd (signal_jamming signals self w))))"
proof -
  let ?w = "print_line jamming_message w"
  have "set (stdout ?w) \<subseteq> set (stdout (snd (jamming_loop signals [] ?w)))"
    by (rule jamming_loop_stdout)
  then show "set (stdout w) \<subseteq> set (stdout (snd (snd (signal_jamming signals self w))))"
    "signals \<noteq> [] \<Longrightarrow>
     jamming_message \<in> set (stdout (snd (snd (signal_jamming signals self w))))"
    by (auto simp: signal_jamming_def case_prod_beta jamming_message_def stdout_print_line)
qed

lemma frequency_hopping_stdout:
  "set (stdout w) \<subseteq> set (stdout (snd (frequency_hopping w)))"
  by (auto simp: frequency_hopping_def case_prod_beta random_choice_def random_uniform_def
      py_random_def datetime_now_isoformat_def print_line_def)

lemma encrypt_location_data_stdout:
  "encryption_message \<in> set (stdout (snd (encrypt_location_data w)))"
  by (simp add: encrypt_location_data_def case_prod_beta datetime_now_isoformat_def
      stdout_print_line random_choices_stdout encryption_message_def)

lemma log_activity_stdout: "stdout (log_activity signals self w) = stdout w"
  by (simp add: log_activity_def case_prod_beta datetime_now_isoformat_def)

lemma apply_protection_stdout:
  assumes "signals \<noteq> []"
  shows "jamming_message \<in> set (stdout (snd (snd (apply_protection signals self w))))"
    and "encryption_message \<in> set (stdout (snd (snd (apply_protection signals self w))))"
proof -
  let ?w1 = "snd (location_spoofing
               (print_line (emoji_shield @ '' Applying maximum protection...'') w))"
  let ?w2 = "snd (snd (signal_jamming signals self ?w1))"
  let ?w3 = "snd (frequency_hopping ?w2)"
  let ?w4 = "snd (encrypt_location_data ?w3)"
  have w4: "snd (snd (apply_protection signals self w)) = ?w4"
    by (simp add: apply_protection_def case_prod_beta)
  have j: "jamming_message \<in> set (stdout ?w2)"
    using assms by (rule signal_jamming_stdout(2))
  have "set (stdout ?w2) \<subseteq> set (stdout ?w3)"
    by (rule frequency_hopping_stdout)
  moreover have "set (stdout ?w3) \<subseteq> set (stdout ?w4)"
    by (auto simp: encrypt_location_data_def case_prod_beta datetime_now_isoformat_def
        stdout_print_line random_choices_stdout)
  ultimately show "jamming_message \<in> set (stdout (snd (snd (apply_protection signals self w))))"
    using j unfolding w4 by blast
  show "encryption_message \<in> set (stdout (snd (snd (apply_protection signals self w))))"
    unfolding w4 by (rule encrypt_location_data_stdout)
qed

lemma continuous_monitoring_tick_critical:
  assumes "analyze_threat_level (fst (detect_gps_signals self w)) = ''critical''"
  shows "jamming_message \<in> set (stdout (snd (continuous_monitoring_tick self w)))"
    and "encryption_message \<in> set (stdout (snd (continuous_monitoring_tick self w)))"
proof -
  let ?signals = "fst (detect_gps_signals self w)"
  from assms have ne: "?signals \<noteq> []"
    by (auto simp: analyze_threat_level_def)
  show "jamming_message \<in> set (stdout (snd (continuous_monitoring_tick self w)))"
    using assms ne apply_protection_stdout(1) [OF ne]
    by (simp add: continuous_monitoring_tick_def case_prod_beta Let_def log_activity_stdout)
  show "encryption_message \<in> set (stdout (snd (continuous_monitoring_tick self w)))"
    using assms ne apply_protection_stdout(2) [OF ne]
    by (simp add: continuous_monitoring_tick_def case_prod_beta Let_def log_activity_stdout)
qed

text \<open>
  C5. The claim: with the protection tier \<open>low\<close> no tick applies jamming or encryption.
  The code at a failing input: the tier is \<open>low\<close>, whose configured methods are signal
  detection and location spoofing only, the scan finds three strong signals (critical),
  and the tick runs \<open>signal_jamming\<close> and \<open>encrypt_location_data\<close>: their first lines are
  in the output.
\<close>

theorem low_tier_tick_jams_and_encrypts:
  "protection_level low_tier_system = ''low''
   \<and> map_of (protection_methods low_tier_system) ''low'' =
       Some [''signal_detection'', ''location_spoofing'']
   \<and> analyze_threat_level (fst (detect_gps_signals low_tier_system world_strong)) = ''critical''
   \<and> jamming_message \<in> set (stdout (snd (continuous_monitoring_tick low_tier_system world_strong)))
   \<and> encryption_message \<in>
       set (stdout (snd (continuous_monitoring_tick low_tier_system world_strong)))"
proof -
  have "analyze_threat_level (fst (detect_gps_signals low_tier_system world_strong)) = ''critical''"
    by (rule threat_strong) (simp_all add: world_strong_def low_tier_system_def)
  then show ?thesis
    using continuous_monitoring_tick_critical [of low_tier_system world_strong]
    by (simp add: low_tier_system_def init_system_def)
qed

subsection \<open>The tick and the protection tier\<close>

lemma detect_gps_signals_tier:
  "detect_gps_signals (self\<lparr>protection_level := level\<rparr>) w =
   (fst (detect_gps_signals self w),
    (fst (snd (detect_gps_signals self w)))\<lparr>protection_level := level\<rparr>,
    snd (snd (detect_gps_signals self w)))"
  by (simp add: detect_gps_signals_def case_prod_beta)

lemma signal_jamming_tier:
  "signal_jamming signals (self\<lparr>protection_level := level\<rparr>) w =
   (fst (signal_jamming signals self w),
    (fst (snd (signal_jamming signals self w)))\<lparr>protection_level := level\<rparr>,
    snd (snd (signal_jamming signals self w)))"
  by (simp add: signal_jamming_def case_prod_beta)

lemma apply_protection_tier:
  "apply_protection signals (self\<lparr>protection_level := level\<rparr>) w =
   (fst (apply_protection signals self w),
    (fst (snd (apply_protection signals self w)))\<lparr>protection_level := level\<rparr>,
    snd (snd (apply_protection signals self w)))"
  by (simp add: apply_protection_def case_prod_beta signal_jamming_tier)

lemma apply_basic_protection_tier:
  "apply_basic_protection signals (self\<lparr>protection_level := level\<rparr>) w =
   (fst (apply_basic_protection signals self w),
    (fst (snd (apply_basic_protection signals self w)))\<lparr>protection_level := level\<rparr>,
    snd (snd (apply_basic_protection signals self w)))"
  by (simp add: apply_basic_protection_def case_prod_beta signal_jamming_tier)

lemma log_activity_tier:
  "log_activity signals (self\<lparr>protection_level := level\<rparr>) w = log_activity signals self w"
  by (simp add: log_activity_def)

text \<open>
  The tick reads the protection tier nowhere: with another tier it does the same to the
  environment and to the other fields of the object.
\<close>

theorem continuous_monitoring_tick_ignores_tier:
  "continuous_monitoring_tick (self\<lparr>protection_level := level\<rparr>) w =
   ((fst (continuous_monitoring_tick self w))\<lparr>protection_level := level\<rparr>,
    snd (continuous_monitoring_tick self w))"
  by (simp add: continuous_monitoring_tick_def case_prod_beta Let_def detect_gps_signals_tier
      apply_protection_tier apply_basic_protection_tier log_activity_tier)

subsection \<open>Configuration\<close>

lemma py_upper_names:
  "py_upper ''high'' = ''HIGH''" "py_upper ''active'' = ''ACTIVE''"
  by (simp_all add: py_upper_def upper_char_def)

text \<open>
  C8. On an object with the protection table of \<open>__init__\<close>: for a level that is none of
  low, medium, high, maximum, \<open>set_protection_level\<close> prints the message of an invalid
  level and changes nothing else; for one of the four it sets \<open>protection_level\<close> to it
  (and prints the confirmation). The same for \<open>set_detection_mode\<close> and the modes
  passive, active, aggressive.
\<close>

theorem set_configuration:
  assumes "protection_methods self = protection_methods init_system"
  shows
    "set_protection_level level self w =
       (if level \<in> {''low'', ''medium'', ''high'', ''maximum''}
        then (self\<lparr>protection_level := level\<rparr>,
              w\<lparr>stdout := stdout w @
                 [emoji_shield @ '' Protection level set to: '' @ py_upper level]\<rparr>)
        else (self, w\<lparr>stdout := stdout w @ [invalid_level_message]\<rparr>))
     \<and> set_detection_mode mode self w =
       (if mode \<in> {''passive'', ''active'', ''aggressive''}
        then (self\<lparr>detection_mode := mode\<rparr>,
              w\<lparr>stdout := stdout w @
                 [emoji_magnifier @ '' Detection mode set to: '' @ py_upper mode]\<rparr>)
        else (self, w\<lparr>stdout := stdout w @ [invalid_mode_message]\<rparr>))"
proof -
  have keys: "set (map fst (protection_methods self)) =
              {''low'', ''medium'', ''high'', ''maximum''}"
    unfolding assms by (simp add: init_system_def)
  have "set_protection_level level self w =
       (if level \<in> {''low'', ''medium'', ''high'', ''maximum''}
        then (self\<lparr>protection_level := level\<rparr>,
              w\<lparr>stdout := stdout w @
                 [emoji_shield @ '' Protection level set to: '' @ py_upper level]\<rparr>)
        else (self, w\<lparr>stdout := stdout w @ [invalid_level_message]\<rparr>))"
    unfolding set_protection_level_def keys
    by (simp add: print_line_def invalid_level_message_def)
  moreover have "set_detection_mode mode self w =
       (if mode \<in> {''passive'', ''active'', ''aggressive''}
        then (self\<lparr>detection_mode := mode\<rparr>,
              w\<lparr>stdout := stdout w @
                 [emoji_magnifier @ '' Detection mode set to: '' @ py_upper mode]\<rparr>)
        else (self, w\<lparr>stdout := stdout w @ [invalid_mode_message]\<rparr>))"
    unfolding set_detection_mode_def Let_def
    by (simp add: print_line_def invalid_mode_message_def)
  ultimately show ?thesis by simp
qed

theorem set_configuration_witness:
  "protection_methods init_system = protection_methods init_system
   \<and> set_protection_level ''extreme'' init_system world_strong =
       (init_system, world_strong\<lparr>stdout := [invalid_level_message]\<rparr>)
   \<and> set_detection_mode ''stealth'' init_system world_strong =
       (init_system, world_strong\<lparr>stdout := [invalid_mode_message]\<rparr>)
   \<and> set_protection_level ''high'' init_system world_strong =
       (init_system\<lparr>protection_level := ''high''\<rparr>,
        world_strong\<lparr>stdout := [emoji_shield @ '' Protection level set to: HIGH'']\<rparr>)
   \<and> set_detection_mode ''active'' init_system world_strong =
       (init_system\<lparr>detection_mode := ''active''\<rparr>,
        world_strong\<lparr>stdout := [emoji_magnifier @ '' Detection mode set to: ACTIVE'']\<rparr>)"
  using set_configuration [OF refl, of "''extreme''" world_strong "''stealth''"]
    set_configuration [OF refl, of "''high''" world_strong "''active''"]
  by (simp add: py_upper_names world_strong_def)

section \<open>Properties of the live location tracker\<close>

subsection \<open>The distance travelled, in every arithmetic\<close>

lemma distance_loop_shift:
  "\<forall>i \<in> set is. 0 < i \<Longrightarrow>
   distance_loop M (p # history) (map Suc is) acc = distance_loop M history is acc"
proof (induction "is" arbitrary: acc)
  case Nil
  then show ?case by simp
next
  case (Cons i rest)
  then have "0 < i" by simp
  then have prev: "(p # history) ! (Suc i - 1) = history ! (i - 1)"
    by (simp add: nth_Cons')
  show ?case
    using Cons by (simp add: Let_def prev split: sum.split)
qed

lemma distance_loop_consecutive:
  "distance_loop M history [1..<length history] acc = sum_consecutive M history acc"
proof (induction M history acc rule: sum_consecutive.induct)
  case (1 M p q rest acc)
  let ?h = "p # q # rest"
  have split: "[1..<length ?h] = 1 # map Suc [1..<length (q # rest)]"
    by (simp add: upt_conv_Cons map_Suc_upt del: upt_Suc)
  have pos: "\<forall>i \<in> set [1..<length (q # rest)]. 0 < i"
    by (auto simp del: upt_Suc)
  show ?case
    unfolding split distance_loop.simps Let_def distance_loop_shift [OF pos]
    using "1.IH" by (simp split: sum.split)
qed simp_all

text \<open>
  Whatever the float arithmetic: \<open>get_distance_traveled\<close> returns 0 when the history holds
  fewer than 2 samples; otherwise it goes through the consecutive pairs of the stored
  samples in their order, adds the distance of each pair to the total, and raises what
  the first failing \<open>calculate_distance\<close> raises.
\<close>

theorem get_distance_traveled_consecutive_pairs:
  "get_distance_traveled M self =
     (if length (location_history self) < 2 then Inr 0
      else sum_consecutive M (location_history self) 0)"
  by (simp add: get_distance_traveled_def distance_loop_consecutive del: upt_Suc One_nat_def)

subsection \<open>The distance is the haversine distance\<close>

lemma sin_half_squared: "(sin (x / 2))\<^sup>2 = (1 - cos x) / (2 :: real)"
  using cos_double_sin [of "x / 2"] by simp

lemma prod_le_half_squares: "\<bar>a * b\<bar> \<le> (a\<^sup>2 + b\<^sup>2) / (2 :: real)"
proof -
  have "0 \<le> (\<bar>a\<bar> - \<bar>b\<bar>)\<^sup>2" by simp
  then have "2 * (\<bar>a\<bar> * \<bar>b\<bar>) \<le> a\<^sup>2 + b\<^sup>2"
    by (simp add: power2_diff)
  then show ?thesis by (simp add: abs_mult)
qed

lemma haversine_term_range:
  fixes p1 p2 l :: real
  defines "a \<equiv> (sin ((p2 - p1) / 2))\<^sup>2 + cos p1 * cos p2 * (sin (l / 2))\<^sup>2"
  shows "0 \<le> a \<and> a \<le> 1"
proof -
  define t where "t = sin p1 * sin p2 + cos p1 * cos p2 * cos l"
  have a: "a = (1 - t) / 2"
    unfolding a_def t_def sin_half_squared cos_diff
    by (simp add: field_simps)
  have "\<bar>cos p1 * cos p2 * cos l\<bar> \<le> \<bar>cos p1 * cos p2\<bar> * 1"
    unfolding abs_mult [of "cos p1 * cos p2" "cos l"]
    by (rule mult_left_mono) simp_all
  then have "\<bar>t\<bar> \<le> \<bar>sin p1 * sin p2\<bar> + \<bar>cos p1 * cos p2\<bar>"
    unfolding t_def by linarith
  also have "\<dots> \<le> ((sin p1)\<^sup>2 + (sin p2)\<^sup>2) / 2 + ((cos p1)\<^sup>2 + (cos p2)\<^sup>2) / 2"
    by (intro add_mono prod_le_half_squares)
  also have "\<dots> = 1"
    unfolding cos_squared_eq by (simp add: field_simps)
  finally have "\<bar>t\<bar> \<le> 1" .
  then show ?thesis unfolding a by (simp add: abs_le_iff)
qed

lemma atan2_sqrt_arcsin:
  assumes "0 \<le> a" "a \<le> 1"
  shows "atan2 (sqrt a) (sqrt (1 - a)) = arcsin (sqrt a)"
proof (cases "a = 1")
  case True
  then show ?thesis by (simp add: atan2_def)
next
  case False
  with assms have lt: "a < 1" by simp
  then have pos: "sqrt (1 - a) > 0" by simp
  have "sqrt a < 1" using lt assms(1) by (simp add: real_sqrt_lt_1_iff)
  moreover have "- 1 < sqrt a"
    using assms(1) by (smt (verit) real_sqrt_ge_zero)
  ultimately have "arcsin (sqrt a) = arctan (sqrt a / sqrt (1 - (sqrt a)\<^sup>2))"
    using arcsin_arctan [of "sqrt a"] by blast
  also have "(sqrt a)\<^sup>2 = a" using assms(1) by simp
  finally show ?thesis using pos by (simp add: atan2_def)
qed

lemma calculate_distance_haversine:
  "calculate_distance exact_arith (lat p) (lon p) (lat q) (lon q) = Inr (haversine_km p q)"
proof -
  define a where "a = (sin ((radians (lat q) - radians (lat p)) / 2))\<^sup>2 +
     cos (radians (lat p)) * cos (radians (lat q)) *
     (sin ((radians (lon q) - radians (lon p)) / 2))\<^sup>2"
  have range: "0 \<le> a \<and> a \<le> 1"
    unfolding a_def by (rule haversine_term_range)
  then have "atan2 (sqrt a) (sqrt (1 - a)) = arcsin (sqrt a)"
    by (simp add: atan2_sqrt_arcsin)
  moreover have "calculate_distance exact_arith (lat p) (lon p) (lat q) (lon q) =
      Inr (6371 * (2 * atan2 (sqrt a) (sqrt (1 - a))))"
    using range
    by (simp add: calculate_distance_def Let_def math_sqrt_def exact_arith_def fl_add_def
        fl_sub_def fl_mul_def fl_div_def a_def [symmetric])
  ultimately show ?thesis
    by (simp add: haversine_km_def a_def)
qed

lemma sum_consecutive_exact:
  "sum_consecutive exact_arith history acc = Inr (acc + total_distance_spec history)"
proof (induction history arbitrary: acc rule: total_distance_spec.induct)
  case (1 p q rest)
  have add: "fl_add exact_arith acc (haversine_km p q) = acc + haversine_km p q"
    by (simp add: fl_add_def exact_arith_def)
  show ?case
    unfolding sum_consecutive.simps calculate_distance_haversine sum.case add "1.IH"
    by simp
qed simp_all

text \<open>
  The formula of \<open>calculate_distance\<close> is the haversine formula. In exact arithmetic the
  argument of both square roots lies between 0 and 1, \<open>get_distance_traveled\<close> does not
  raise, and its result is 0 when the history holds fewer than 2 samples and otherwise
  the sum, over the consecutive stored samples in order, of the haversine great-circle
  distance between their coordinates, with Earth radius 6371 km.
\<close>

theorem get_distance_traveled_exact_haversine:
  "get_distance_traveled exact_arith self =
     Inr (if length (location_history self) < 2 then 0
          else total_distance_spec (location_history self))"
  by (simp add: get_distance_traveled_def distance_loop_consecutive sum_consecutive_exact
      del: upt_Suc One_nat_def)

subsection \<open>A journey between two nearly antipodal samples\<close>

lemmas ieee_libm_eval =
  ieee_libm_def ieee_arith_def libm_sin_def libm_cos_def fl_add_def fl_sub_def fl_mul_def
  fl_div_def deg_to_rad_def

text \<open>The steps of \<open>calculate_distance\<close> on the two samples, in doubles.\<close>

lemma radians_south_lat:
  "fl_radians ieee_libm (- 87.5) = - (1719432786951357 / 2 ^ 50)"
  by (simp add: ieee_libm_eval ieee_eval)

lemma radians_south_lon:
  "fl_radians ieee_libm (- 179) = - (3517468215591919 / 2 ^ 50)"
  by (simp add: ieee_libm_eval ieee_eval)

lemma radians_north_lat:
  "fl_radians ieee_libm 87.5 = 1719432786951357 / 2 ^ 50"
  by (simp add: ieee_libm_eval ieee_eval)

lemma radians_north_lon:
  "fl_radians ieee_libm 1 = 5030569068109113 / 2 ^ 58"
  by (simp add: ieee_libm_eval ieee_eval)

lemma journey_dlat:
  "fl_sub ieee_libm (1719432786951357 / 2 ^ 50) (- (1719432786951357 / 2 ^ 50)) = 1719432786951357 / 2 ^ 49"
  by (simp add: ieee_libm_eval ieee_eval)

lemma journey_dlon:
  "fl_sub ieee_libm (5030569068109113 / 2 ^ 58) (- (3517468215591919 / 2 ^ 50)) = 884279719003555 / 2 ^ 48"
  by (simp add: ieee_libm_eval ieee_eval)

lemma journey_half_dlat:
  "fl_div ieee_libm (1719432786951357 / 2 ^ 49) 2 = 1719432786951357 / 2 ^ 50"
  by (simp add: ieee_libm_eval ieee_eval)

lemma journey_half_dlon:
  "fl_div ieee_libm (884279719003555 / 2 ^ 48) 2 = 884279719003555 / 2 ^ 49"
  by (simp add: ieee_libm_eval ieee_eval)

lemma journey_sin_dlat:
  "fl_sin ieee_libm (1719432786951357 / 2 ^ 50) = 8998626396882423 / 2 ^ 53"
  by (simp add: ieee_libm_eval ieee_eval)

lemma journey_sin_dlon:
  "fl_sin ieee_libm (884279719003555 / 2 ^ 49) = 1"
  by (simp add: ieee_libm_eval ieee_eval)

lemma journey_cos_south:
  "fl_cos ieee_libm (- (1719432786951357 / 2 ^ 50)) = 3143108106954505 / 2 ^ 56"
  by (simp add: ieee_libm_eval ieee_eval)

lemma journey_cos_north:
  "fl_cos ieee_libm (1719432786951357 / 2 ^ 50) = 3143108106954505 / 2 ^ 56"
  by (simp add: ieee_libm_eval ieee_eval)

lemma journey_sqr_dlat:
  "fl_sqr ieee_libm (8998626396882423 / 2 ^ 53) = 4495030849242473 / 2 ^ 52"
  by (simp add: ieee_libm_eval ieee_eval)

lemma journey_sqr_dlon:
  "fl_sqr ieee_libm 1 = 1"
  by (simp add: ieee_libm_eval ieee_eval)

lemma journey_cos_cos:
  "fl_mul ieee_libm (3143108106954505 / 2 ^ 56) (3143108106954505 / 2 ^ 56) = 8774428803096097 / 2 ^ 62"
  by (simp add: ieee_libm_eval ieee_eval)

lemma journey_cos_cos_sqr:
  "fl_mul ieee_libm (8774428803096097 / 2 ^ 62) 1 = 8774428803096097 / 2 ^ 62"
  by (simp add: ieee_libm_eval ieee_eval)

lemma journey_a:
  "fl_add ieee_libm (4495030849242473 / 2 ^ 52) (8774428803096097 / 2 ^ 62) = 4503599627370497 / 2 ^ 52"
  by (simp add: ieee_libm_eval ieee_eval)

lemma journey_one_minus_a:
  "fl_sub ieee_libm 1 (4503599627370497 / 2 ^ 52) = - (1 / 2 ^ 52)"
  by (simp add: ieee_libm_eval ieee_eval)

lemmas journey_steps =
  radians_south_lat radians_south_lon radians_north_lat radians_north_lon
  journey_dlat journey_dlon journey_half_dlat journey_half_dlon
  journey_sin_dlat journey_sin_dlon journey_cos_south journey_cos_north
  journey_sqr_dlat journey_sqr_dlon journey_cos_cos journey_cos_cos_sqr
  journey_a journey_one_minus_a

text \<open>
  The sum \<open>a\<close> is \<open>1 + 2^-52\<close>, the double after 1, so \<open>1 - a\<close> is negative and the second
  square root raises.
\<close>

lemma calculate_distance_journey:
  "calculate_distance ieee_libm (- 87.5) (- 179) 87.5 1 = Inl ValueError"
  unfolding calculate_distance_def Let_def journey_steps
  by (simp add: math_sqrt_def)

lemma journey_coordinates:
  "lat southern_location = - 87.5" "lon southern_location = - 179"
  "lat northern_location = 87.5" "lon northern_location = 1"
  by (simp_all add: southern_location_def northern_location_def)

text \<open>
  C4. \<open>get_distance_traveled\<close> is to return the sum of the haversine distances between
  the consecutive stored samples (0 for fewer than 2 samples). On the history of the two
  samples (87.5 S, 179 W) and (87.5 N, 1 E), whose distance is about 20015 km, it
  returns no number in double arithmetic: \<open>calculate_distance\<close> raises \<open>ValueError\<close>, and
  so does \<open>get_distance_traveled\<close>.
\<close>

theorem get_distance_traveled_near_antipodes:
  "get_distance_traveled ieee_libm antipodal_journey = Inl ValueError"
proof -
  have h: "location_history antipodal_journey = [southern_location, northern_location]"
    by (simp add: antipodal_journey_def)
  have prev: "[southern_location, northern_location] ! (1 - 1) = southern_location"
    and curr: "[southern_location, northern_location] ! 1 = northern_location"
    by simp_all
  have "distance_loop ieee_libm [southern_location, northern_location] [1] 0 = Inl ValueError"
    unfolding distance_loop.simps Let_def prev curr journey_coordinates
      calculate_distance_journey
    by simp
  then show ?thesis
    unfolding get_distance_traveled_def h by (simp add: upt_rec)
qed

subsection \<open>The history buffer\<close>

lemma tracking_tick_history:
  "location_history (fst (tracking_tick log_error self w)) =
   drop (length (location_history self @ [fst (get_current_location self w)]) - 100)
     (location_history self @ [fst (get_current_location self w)])"
  by (cases log_error) (simp_all add: tracking_tick_def case_prod_beta Let_def)

lemma drop_drop_append:
  "drop (length (drop (length xs - n) xs @ ys) - n) (drop (length xs - n) xs @ ys) =
   drop (length (xs @ ys) - n) (xs @ ys)"
proof (cases "length xs \<le> n")
  case True
  then show ?thesis by simp
next
  case False
  then have "length (drop (length xs - n) xs @ ys) - n = length ys"
    by simp
  moreover from False have "length (xs @ ys) - n = (length xs - n) + length ys"
    by simp
  ultimately show ?thesis
    by (simp add: drop_append add.commute [of _ "length ys"] flip: drop_drop)
qed

lemma tracking_loop_history:
  "length (location_history self) \<le> 100 \<Longrightarrow>
   location_history (fst (tracking_loop errs self w)) =
   drop (length (location_history self @ sampled errs self w) - 100)
     (location_history self @ sampled errs self w)"
proof (induction errs arbitrary: self w)
  case Nil
  then show ?case by simp
next
  case (Cons e errs)
  let ?x = "fst (get_current_location self w)"
  let ?self' = "fst (tracking_tick e self w)"
  let ?w' = "snd (tracking_tick e self w)"
  have h': "location_history ?self' =
            drop (length (location_history self @ [?x]) - 100) (location_history self @ [?x])"
    by (rule tracking_tick_history)
  then have "length (location_history ?self') \<le> 100"
    using Cons.prems by simp
  from Cons.IH [OF this, of ?w']
  have "location_history (fst (tracking_loop (e # errs) self w)) =
        drop (length (location_history ?self' @ sampled errs ?self' ?w') - 100)
          (location_history ?self' @ sampled errs ?self' ?w')"
    by (simp add: case_prod_beta)
  also have "\<dots> =
        drop (length ((location_history self @ [?x]) @ sampled errs ?self' ?w') - 100)
          ((location_history self @ [?x]) @ sampled errs ?self' ?w')"
    unfolding h' by (rule drop_drop_append)
  finally show ?case
    by (simp add: case_prod_beta)
qed

lemma length_sampled: "length (sampled errs self w) = length errs"
  by (induction errs arbitrary: self w) (simp_all add: case_prod_beta)

text \<open>
  C2. After any tick the history holds at most 100 samples. From the initial tracker,
  after any number of ticks, it holds at most 100 samples, and they are the samples of
  the ticks without the first \<open>n - 100\<close> of them, in the order of their insertion: for
  150 ticks, the last 100 of the 150 samples.
\<close>

theorem location_history_bounded_fifo:
  "length (location_history (fst (tracking_tick log_error self w))) \<le> 100
   \<and> length (location_history (fst (tracking_loop errs init_tracker w))) \<le> 100
   \<and> length (sampled errs init_tracker w) = length errs
   \<and> location_history (fst (tracking_loop errs init_tracker w)) =
       drop (length errs - 100) (sampled errs init_tracker w)"
proof -
  have "location_history (fst (tracking_loop errs init_tracker w)) =
        drop (length errs - 100) (sampled errs init_tracker w)"
    using tracking_loop_history [of init_tracker errs w]
    by (simp add: init_tracker_def length_sampled)
  moreover have "length (location_history (fst (tracking_tick log_error self w))) \<le> 100"
    unfolding tracking_tick_history by simp
  moreover have "length (drop (length errs - 100) (sampled errs init_tracker w)) \<le> 100"
    by (simp add: length_sampled)
  ultimately show ?thesis
    by (simp add: length_sampled)
qed

theorem location_history_150_samples:
  "length (sampled (replicate 150 None) init_tracker world_tracking) = 150
   \<and> length (location_history
         (fst (tracking_loop (replicate 150 None) init_tracker world_tracking))) = 100
   \<and> location_history (fst (tracking_loop (replicate 150 None) init_tracker world_tracking)) =
       drop 50 (sampled (replicate 150 None) init_tracker world_tracking)"
  using location_history_bounded_fifo
    [of None init_tracker world_tracking "replicate 150 None"]
  by simp

section \<open>Properties of the shareable links\<close>

lemma frac_digits_numeral:
  "frac_digits (numeral k) f =
     (if f = 0 then []
      else digit_char (nat \<lfloor>f * 10\<rfloor>) #
           frac_digits (pred_numeral k) (f * 10 - of_int \<lfloor>f * 10\<rfloor>))"
  by (simp add: numeral_eq_Suc)

lemma py_float_str_examples:
  "py_float_str 40.7128 = ''40.7128''"
  "py_float_str (- 74.0060) = ''-74.006''"
  by (simp_all add: py_float_str_def frac_digits_numeral str_nat.simps digit_char_def Let_def)

lemma generate_links_google_maps:
  assumes "well_formed_location loc"
  shows "link_of ''google_maps'' (generate_links self loc) =
         Some (''https://www.google.com/maps?q='' @ format_plain (the (loc ''lat'')) @ '','' @
               format_plain (the (loc ''lon'')))"
proof -
  from assms obtain city_name country_v lat_v lon_v where keys:
    "loc ''name'' = Some city_name" "loc ''country'' = Some country_v"
    "loc ''lat'' = Some lat_v" "loc ''lon'' = Some lon_v"
    by (auto simp: well_formed_location_def dict_get_def is_number_def split: option.splits)
  from assms keys obtain lat6 lon6 temperature1 speed1 where fixed:
    "format_fixed 6 lat_v = Inr lat6" "format_fixed 6 lon_v = Inr lon6"
    "format_fixed 1 (dict_get loc ''temperature'' (PyInt 0)) = Inr temperature1"
    "format_fixed 1 (dict_get loc ''speed'' (PyInt 0)) = Inr speed1"
    by (auto simp: well_formed_location_def dict_get_def is_number_def format_fixed_def
        split: py_value.splits)
  show ?thesis
    by (simp add: generate_links_def dict_item_def keys fixed Let_def link_of_def map_links_def
        del: One_nat_def)
qed

text \<open>
  C9. The links are a function of the location alone: no field of the generator object
  is read, so two generators, or two calls, give the same result on the same location.
  For a well-formed location with \<open>lat\<close> 40.7128 and \<open>lon\<close> -74.0060 the call succeeds and
  its Google Maps link is \<open>https://www.google.com/maps?q=40.7128,-74.006\<close>, which
  contains \<open>q=40.7128,-74.006\<close>.
\<close>

theorem generate_links_deterministic:
  "generate_links self loc = generate_links self' loc
   \<and> (well_formed_location loc \<and> loc ''lat'' = Some (PyFloat 40.7128) \<and>
      loc ''lon'' = Some (PyFloat (- 74.0060)) \<longrightarrow>
      link_of ''google_maps'' (generate_links self loc) =
        Some ''https://www.google.com/maps?q=40.7128,-74.006''
      \<and> (\<exists>url. link_of ''google_maps'' (generate_links self loc) = Some url \<and>
                 sublist ''q=40.7128,-74.006'' url))"
proof -
  have det: "generate_links self loc = generate_links self' loc"
    by (simp add: generate_links_def)
  have "link_of ''google_maps'' (generate_links self loc) =
        Some ''https://www.google.com/maps?q=40.7128,-74.006''"
    if "well_formed_location loc" "loc ''lat'' = Some (PyFloat 40.7128)"
      "loc ''lon'' = Some (PyFloat (- 74.0060))"
    unfolding generate_links_google_maps [OF that(1), of self] that(2,3) option.sel
      format_plain_def py_value.case py_float_str_examples
    by simp
  moreover have "sublist ''q=40.7128,-74.006'' ''https://www.google.com/maps?q=40.7128,-74.006''"
    unfolding sublist_def
    by (rule exI [of _ "''https://www.google.com/maps?''"], rule exI [of _ "[]"]) simp
  ultimately show ?thesis
    using det by auto
qed

theorem generate_links_demo_location:
  "well_formed_location demo_location
   \<and> demo_location ''lat'' = Some (PyFloat 40.7128)
   \<and> demo_location ''lon'' = Some (PyFloat (- 74.0060))
   \<and> link_of ''google_maps'' (generate_links init_generator demo_location) =
       Some ''https://www.google.com/maps?q=40.7128,-74.006''"
  using generate_links_deterministic [of init_generator demo_location init_generator]
  by (simp add: well_formed_location_def demo_location_def dict_get_def is_number_def)

end
